theory Spec2Isabelle
  imports Complex_Main "HOL-Library.Log_Nat"
begin

section \<open>JavaScript strings\<close>

text \<open>
  A JavaScript string is a sequence of UTF-16 code units. A \<^typ>\<open>char\<close> stands for
  a code unit in the range U+0000 to U+00FF (the Latin-1 block), so \<^typ>\<open>string\<close> covers
  the inputs written with these characters, and \<^const>\<open>length\<close> counts code units.
\<close>

definition isWhite :: "char \<Rightarrow> bool" where
  \<comment> \<open>WhiteSpace and LineTerminator below U+0100: TAB, LF, VT, FF, CR, SP, NBSP;
      what \<open>trim\<close> strips and what \<open>\s\<close> matches.\<close>
  "isWhite c = (c \<in> set [CHR 0x09, CHR 0x0A, CHR 0x0B, CHR 0x0C, CHR 0x0D, CHR '' '', CHR 0xA0])"

definition isDigit :: "char \<Rightarrow> bool" where
  "isDigit c = (c \<in> set ''0123456789'')"

definition isWord :: "char \<Rightarrow> bool" where
  \<comment> \<open>The class \<open>\w\<close> that decides \<open>\b\<close>.\<close>
  "isWord c = (c \<in> set ''abcdefghijklmnopqrstuvwxyzABCDEFGHIJKLMNOPQRSTUVWXYZ0123456789_'')"

definition asciiUpper :: string where
  "asciiUpper = ''ABCDEFGHIJKLMNOPQRSTUVWXYZ''"

definition asciiLower :: string where
  "asciiLower = ''abcdefghijklmnopqrstuvwxyz''"

definition lowerChar :: "char \<Rightarrow> char" where
  \<comment> \<open>\<open>toLowerCase\<close> on one code unit: A-Z, and the Latin-1 capitals U+00C0-U+00DE
      without the multiplication sign U+00D7.\<close>
  "lowerChar c =
     (case map_of (zip asciiUpper asciiLower) c of
        Some l \<Rightarrow> l
      | None \<Rightarrow>
          (let n = (of_char c :: nat)
           in if 192 \<le> n \<and> n \<le> 222 \<and> n \<noteq> 215 then char_of (n + 32) else c))"

definition upperChar :: "char \<Rightarrow> char" where
  \<comment> \<open>\<open>toUpperCase\<close> on one ASCII code unit; the regular expressions with flag \<open>i\<close>
      hold ASCII only, and no other code unit has an ASCII letter as its upper case.\<close>
  "upperChar c = (case map_of (zip asciiLower asciiUpper) c of Some u \<Rightarrow> u | None \<Rightarrow> c)"

definition toLowerCase :: "string \<Rightarrow> string" where
  "toLowerCase s = map lowerChar s"

definition trim :: "string \<Rightarrow> string" where
  "trim s = rev (dropWhile isWhite (rev (dropWhile isWhite s)))"

definition startsWith :: "string \<Rightarrow> string \<Rightarrow> bool" where
  "startsWith s p = (take (length p) s = p)"

fun includesStr :: "string \<Rightarrow> string \<Rightarrow> bool" where
  "includesStr [] sub = (sub = [])"
| "includesStr (x # xs) sub = (startsWith (x # xs) sub \<or> includesStr xs sub)"

fun replace :: "string \<Rightarrow> string \<Rightarrow> string \<Rightarrow> string" where
  \<comment> \<open>\<open>s.replace(pat, rep)\<close> with a string pattern: the first occurrence only.
      The source's replacement is the empty string, so no \<open>$\<close> pattern arises.\<close>
  "replace [] pat rep = (if pat = [] then rep else [])"
| "replace (x # xs) pat rep =
     (if startsWith (x # xs) pat then rep @ drop (length pat) (x # xs)
      else x # replace xs pat rep)"

fun indexOf :: "'a list \<Rightarrow> 'a \<Rightarrow> int" where
  "indexOf [] x = -1"
| "indexOf (y # ys) x = (if y = x then 0 else let k = indexOf ys x in if k < 0 then -1 else k + 1)"

fun findIndex :: "('a \<Rightarrow> bool) \<Rightarrow> 'a list \<Rightarrow> int" where
  "findIndex P [] = -1"
| "findIndex P (y # ys) = (if P y then 0 else let k = findIndex P ys in if k < 0 then -1 else k + 1)"

subsection \<open>Numbers read from and written to strings\<close>

text \<open>
  A number that may be NaN is an \<^typ>\<open>int option\<close>, \<^const>\<open>None\<close> for NaN.
  \<open>parseInt\<close> yields the double nearest to the numeral, which is the integer itself
  below \<open>2^53\<close>. The source reads hours, minutes, days of a month (one or two digits) and
  counts of days; a count of days from \<open>2^53\<close> on leaves the range of Date whichever
  double is taken (see \<open>addDays\<close>), so the model keeps the integer.
\<close>

definition digitVal :: "char \<Rightarrow> int" where
  "digitVal c = int (of_char c) - 48"

definition digitsVal :: "string \<Rightarrow> int" where
  "digitsVal ds = foldl (\<lambda>a c. 10 * a + digitVal c) 0 ds"

definition parseInt :: "string \<Rightarrow> int option" where
  \<comment> \<open>\<open>parseInt(s, 10)\<close>: leading white space, a sign, then the longest run of digits.\<close>
  "parseInt s =
     (let t = dropWhile isWhite s;
          sgn = (case t of c # r \<Rightarrow> if c = CHR ''-'' then -1 else 1 | [] \<Rightarrow> 1);
          u = (case t of c # r \<Rightarrow> if c = CHR ''-'' \<or> c = CHR ''+'' then r else t | [] \<Rightarrow> t);
          ds = takeWhile isDigit u
      in if ds = [] then None else Some (sgn * digitsVal ds))"

definition digitChar :: "nat \<Rightarrow> char" where
  \<comment> \<open>The character of a digit below 10.\<close>
  "digitChar n = ''0123456789'' ! n"

fun decimal :: "nat \<Rightarrow> string" where
  \<comment> \<open>The decimal numeral of a natural number, as a template literal writes it.\<close>
  "decimal n = (if n < 10 then [digitChar n] else decimal (n div 10) @ [digitChar (n mod 10)])"

declare decimal.simps [simp del]

section \<open>Regular expressions\<close>

text \<open>
  The fragment of the regular-expression language that the source uses: literals,
  greedy repetitions of a character class, the assertions \<open>\b\<close>, \<open>^\<close> and \<open>$\<close>,
  sequence, alternation, greedy option and capture groups. Matching is the backtracking
  search of the language definition, written as a list of successes: the results of a
  node are listed in the order in which backtracking would try them, so the head of the
  list is the match that \<open>exec\<close> reports.
\<close>

datatype cls = Digit | Space | AnyOf string

fun inCls :: "cls \<Rightarrow> char \<Rightarrow> bool" where
  "inCls Digit c = isDigit c"
| "inCls Space c = isWhite c"
| "inCls (AnyOf cs) c = (c \<in> set cs)"

datatype re =
    Lit string
  | Rep cls nat "nat option"
  | WordB
  | Bol
  | Eol
  | Seq re re
  | Alt re re
  | Opt re
  | Grp nat re

fun seqs :: "re list \<Rightarrow> re" where
  "seqs [] = Lit []"
| "seqs [r] = r"
| "seqs (r # rs) = Seq r (seqs rs)"

fun alts :: "re list \<Rightarrow> re" where
  "alts [] = Lit []"
| "alts [r] = r"
| "alts (r # rs) = Alt r (alts rs)"

definition lits :: "string list \<Rightarrow> re" where
  \<comment> \<open>\<open>a|b|c\<close> for literal words.\<close>
  "lits ws = alts (map Lit ws)"

fun ngroups :: "re \<Rightarrow> nat" where
  "ngroups (Seq a b) = max (ngroups a) (ngroups b)"
| "ngroups (Alt a b) = max (ngroups a) (ngroups b)"
| "ngroups (Opt a) = ngroups a"
| "ngroups (Grp n a) = max n (ngroups a)"
| "ngroups _ = 0"

definition chEq :: "bool \<Rightarrow> char \<Rightarrow> char \<Rightarrow> bool" where
  \<comment> \<open>A pattern character against a subject character; with flag \<open>i\<close> both are
      canonicalised to upper case (the patterns hold ASCII only).\<close>
  "chEq ic p c = (if ic then upperChar p = upperChar c else p = c)"

fun litAt :: "bool \<Rightarrow> string \<Rightarrow> string \<Rightarrow> bool" where
  "litAt ic [] s = True"
| "litAt ic (p # ps) [] = False"
| "litAt ic (p # ps) (c # cs) = (chEq ic p c \<and> litAt ic ps cs)"

type_synonym caps = "(nat \<times> string) list"

text \<open>
  A state of the search: the index reached in the subject, the character before it (none
  at the start), the rest of the subject from the index on, and the captures so far.
\<close>

type_synonym mstate = "nat \<times> char option \<times> string \<times> caps"

definition lastOr :: "char option \<Rightarrow> string \<Rightarrow> char option" where
  \<comment> \<open>The character before the index after the characters \<open>xs\<close> have been consumed.\<close>
  "lastOr prev xs = (if xs = [] then prev else Some (last xs))"

definition wordBefore :: "char option \<Rightarrow> bool" where
  "wordBefore prev = (case prev of None \<Rightarrow> False | Some x \<Rightarrow> isWord x)"

definition wordAfter :: "string \<Rightarrow> bool" where
  "wordAfter rest = (case rest of [] \<Rightarrow> False | x # _ \<Rightarrow> isWord x)"

fun ms :: "bool \<Rightarrow> re \<Rightarrow> mstate \<Rightarrow> mstate list" where
  "ms ic (Lit l) (i, prev, rest, c) =
     (if litAt ic l rest
      then [(i + length l, lastOr prev (take (length l) rest), drop (length l) rest, c)]
      else [])"
| "ms ic (Rep k lo hi) (i, prev, rest, c) =
     (let run = length (takeWhile (inCls k) rest);
          n = (case hi of None \<Rightarrow> run | Some h \<Rightarrow> min h run)
      in map (\<lambda>j. (i + j, lastOr prev (take j rest), drop j rest, c)) (rev [lo ..< Suc n]))"
| "ms ic WordB (i, prev, rest, c) =
     (if wordBefore prev \<noteq> wordAfter rest then [(i, prev, rest, c)] else [])"
| "ms ic Bol (i, prev, rest, c) = (if i = 0 then [(i, prev, rest, c)] else [])"
| "ms ic Eol (i, prev, rest, c) = (if rest = [] then [(i, prev, rest, c)] else [])"
| "ms ic (Seq a b) st = concat (map (ms ic b) (ms ic a st))"
| "ms ic (Alt a b) st = ms ic a st @ ms ic b st"
| "ms ic (Opt a) st = ms ic a st @ [st]"
| "ms ic (Grp n a) (i, prev, rest, c) =
     map (\<lambda>(j, pv, rs, c'). (j, pv, rs, (n, take (j - i) rest) # c')) (ms ic a (i, prev, rest, c))"

record regexp =
  src :: string
  icase :: bool
  body :: re

record rmatch =
  m0 :: string
  groups :: "string option list"
  index :: nat

definition grp :: "rmatch \<Rightarrow> nat \<Rightarrow> string option" where
  \<comment> \<open>\<open>m[k]\<close> for \<open>k \<ge> 1\<close>; \<^const>\<open>None\<close> is \<open>undefined\<close>.\<close>
  "grp m k = (if 1 \<le> k \<and> k \<le> length (groups m) then groups m ! (k - 1) else None)"

definition execAt :: "regexp \<Rightarrow> nat \<Rightarrow> char option \<Rightarrow> string \<Rightarrow> rmatch option" where
  \<comment> \<open>The match that starts at index \<open>i\<close>, if there is one.\<close>
  "execAt r i prev rest =
     (case ms (icase r) (body r) (i, prev, rest, []) of
        [] \<Rightarrow> None
      | (j, _, _, c) # _ \<Rightarrow>
          Some \<lparr>m0 = take (j - i) rest,
                groups = map (map_of c) [1 ..< Suc (ngroups (body r))],
                index = i\<rparr>)"

fun search :: "regexp \<Rightarrow> nat \<Rightarrow> char option \<Rightarrow> string \<Rightarrow> rmatch option" where
  \<comment> \<open>The leftmost start that matches, from index \<open>i\<close> on; the last start tried is the
      end of the subject.\<close>
  "search r i prev [] = execAt r i prev []"
| "search r i prev (x # xs) =
     (case execAt r i prev (x # xs) of
        Some m \<Rightarrow> Some m
      | None \<Rightarrow> search r (Suc i) (Some x) xs)"

definition rmatch :: "regexp \<Rightarrow> string \<Rightarrow> rmatch option" where
  \<comment> \<open>\<open>s.match(r)\<close> for \<open>r\<close> without flag \<open>g\<close>.\<close>
  "rmatch r s = search r 0 None s"

definition test :: "regexp \<Rightarrow> string \<Rightarrow> bool" where
  "test r s = (rmatch r s \<noteq> None)"

section \<open>JavaScript numbers\<close>

text \<open>
  A finite double is the rational number it denotes. \<open>dbl\<close> rounds a rational to the
  nearest double, ties to even, with a significand of 53 bits; the magnitudes that arise
  here lie between \<open>1/8\<close> and \<open>2\<close>, far from overflow and from the subnormal range.
  A decimal literal of the source is \<open>dbl\<close> of its value; a sum or product of two
  doubles is \<open>dbl\<close> of the exact sum or product.
\<close>

definition pow2 :: "int \<Rightarrow> rat" where
  "pow2 e = (if 0 \<le> e then 2 ^ nat e else 1 / 2 ^ nat (- e))"

definition dbl :: "rat \<Rightarrow> rat" where
  "dbl x =
     (if x = 0 then 0
      else
        let a = \<bar>x\<bar>;
            pq = quotient_of a;
            e0 = bitlen (fst pq) - bitlen (snd pq);
            e = (if pow2 e0 \<le> a then e0 else e0 - 1);
            y = a * pow2 (52 - e);
            f = \<lfloor>y\<rfloor>;
            r = y - of_int f;
            m = (if r < 1 / 2 then f else if 1 / 2 < r then f + 1
                 else if even f then f else f + 1)
        in sgn x * of_int m / pow2 (52 - e))"

definition dadd :: "rat \<Rightarrow> rat \<Rightarrow> rat" where
  "dadd a b = dbl (a + b)"

definition dmul :: "rat \<Rightarrow> rat \<Rightarrow> rat" where
  "dmul a b = dbl (a * b)"

text \<open>The decimal literals of the source.\<close>

definition lit_0_2 :: rat where "lit_0_2 = dbl (2 / 10)"
definition lit_0_3 :: rat where "lit_0_3 = dbl (3 / 10)"
definition lit_0_5 :: rat where "lit_0_5 = dbl (5 / 10)"
definition lit_0_6 :: rat where "lit_0_6 = dbl (6 / 10)"
definition lit_0_65 :: rat where "lit_0_65 = dbl (65 / 100)"
definition lit_0_7 :: rat where "lit_0_7 = dbl (7 / 10)"
definition lit_0_75 :: rat where "lit_0_75 = dbl (75 / 100)"
definition lit_0_8 :: rat where "lit_0_8 = dbl (8 / 10)"
definition lit_0_85 :: rat where "lit_0_85 = dbl (85 / 100)"
definition lit_0_9 :: rat where "lit_0_9 = dbl (9 / 10)"
definition lit_1_0 :: rat where "lit_1_0 = dbl 1"

section \<open>The Date object and the date-fns functions\<close>

text \<open>
  The time value of a Date is a whole number of milliseconds since the epoch, at most
  \<open>8.64e15\<close> in absolute value, or NaN (an invalid date). Local time is taken to be UTC:
  the model is a zone with no offset and no daylight-saving shift, so the local fields
  of a date are the fields of its time value.
\<close>

datatype date = Invalid | Time int

definition msPerDay :: int where "msPerDay = 86400000"
definition msPerHour :: int where "msPerHour = 3600000"
definition msPerMinute :: int where "msPerMinute = 60000"
definition maxTime :: int where "maxTime = 8640000000000000"

definition timeClip :: "int \<Rightarrow> date" where
  "timeClip t = (if \<bar>t\<bar> \<le> maxTime then Time t else Invalid)"

definition isValid :: "date \<Rightarrow> bool" where
  "isValid d = (d \<noteq> Invalid)"

definition civil :: "int \<Rightarrow> int \<times> int \<times> int" where
  \<comment> \<open>Year, month (0 to 11) and day of the month (1 to 31) of a day number, in the
      proleptic Gregorian calendar; day 0 is 1 January 1970.\<close>
  "civil d =
     (let z = d + 719468;
          era = z div 146097;
          doe = z mod 146097;
          yoe = (doe - doe div 1460 + doe div 36524 - doe div 146096) div 365;
          doy = doe - (365 * yoe + yoe div 4 - yoe div 100);
          mp = (5 * doy + 2) div 153;
          dd = doy - (153 * mp + 2) div 5 + 1;
          m = (if mp < 10 then mp + 2 else mp - 10);
          y = yoe + era * 400 + (if m \<le> 1 then 1 else 0)
      in (y, m, dd))"

definition dayFromCivil :: "int \<Rightarrow> int \<Rightarrow> int" where
  \<comment> \<open>The day number of the first day of month \<open>m\<close> (0 to 11) of year \<open>y\<close>.\<close>
  "dayFromCivil y m =
     (let y' = (if m \<le> 1 then y - 1 else y);
          era = y' div 400;
          yoe = y' mod 400;
          mp = (if 2 \<le> m then m - 2 else m + 10);
          doy = (153 * mp + 2) div 5;
          doe = yoe * 365 + yoe div 4 - yoe div 100 + doy
      in era * 146097 + doe - 719468)"

definition makeDay :: "int \<Rightarrow> int \<Rightarrow> int \<Rightarrow> int" where
  \<comment> \<open>MakeDay: months and days outside their range carry over.\<close>
  "makeDay year month dt = dayFromCivil (year + month div 12) (month mod 12) + dt - 1"

definition getFullYear :: "int \<Rightarrow> int" where
  "getFullYear t = fst (civil (t div msPerDay))"

definition getMonth :: "int \<Rightarrow> int" where
  "getMonth t = fst (snd (civil (t div msPerDay)))"

definition getDate :: "int \<Rightarrow> int" where
  "getDate t = snd (snd (civil (t div msPerDay)))"

definition getDay :: "int \<Rightarrow> int" where
  \<comment> \<open>0 is Sunday; 1 January 1970 was a Thursday.\<close>
  "getDay t = (t div msPerDay + 4) mod 7"

definition getHours :: "date \<Rightarrow> int option" where
  "getHours d = (case d of Invalid \<Rightarrow> None | Time t \<Rightarrow> Some ((t mod msPerDay) div msPerHour))"

definition getMinutes :: "date \<Rightarrow> int option" where
  "getMinutes d = (case d of Invalid \<Rightarrow> None | Time t \<Rightarrow> Some ((t mod msPerHour) div msPerMinute))"

definition newDate :: "int \<Rightarrow> int \<Rightarrow> int \<Rightarrow> date" where
  \<comment> \<open>\<open>new Date(year, month, day)\<close>: midnight; a year from 0 to 99 means 1900 + year.\<close>
  "newDate y m d =
     timeClip (makeDay (if 0 \<le> y \<and> y \<le> 99 then 1900 + y else y) m d * msPerDay)"

definition dateLess :: "date \<Rightarrow> date \<Rightarrow> bool" where
  \<comment> \<open>\<open>a < b\<close> on dates compares the time values; false if either is NaN.\<close>
  "dateLess a b = (case (a, b) of (Time x, Time y) \<Rightarrow> x < y | _ \<Rightarrow> False)"

definition setHours :: "date \<Rightarrow> int \<Rightarrow> date" where
  "setHours d h =
     (case d of Invalid \<Rightarrow> Invalid
      | Time t \<Rightarrow> timeClip ((t div msPerDay) * msPerDay + h * msPerHour + t mod msPerHour))"

definition setMinutes :: "date \<Rightarrow> int \<Rightarrow> date" where
  "setMinutes d m =
     (case d of Invalid \<Rightarrow> Invalid
      | Time t \<Rightarrow> timeClip ((t div msPerHour) * msPerHour + m * msPerMinute + t mod msPerMinute))"

definition setMonth :: "int \<Rightarrow> int \<Rightarrow> int \<Rightarrow> date" where
  \<comment> \<open>\<open>d.setMonth(month, day)\<close> on the valid date with time value \<open>t\<close>.\<close>
  "setMonth t month dt = timeClip (makeDay (getFullYear t) month dt * msPerDay + t mod msPerDay)"

definition setFullYear :: "int \<Rightarrow> int \<Rightarrow> int \<Rightarrow> int \<Rightarrow> date" where
  "setFullYear t y month dt = timeClip (makeDay y month dt * msPerDay + t mod msPerDay)"

definition addDays :: "date \<Rightarrow> int option \<Rightarrow> date" where
  \<comment> \<open>date-fns: NaN gives an invalid date, 0 gives the date back, otherwise
      \<open>setDate(getDate() + amount)\<close>, which moves the day number by \<open>amount\<close> and keeps
      the time within the day.\<close>
  "addDays d amount =
     (case amount of None \<Rightarrow> Invalid
      | Some n \<Rightarrow>
          if n = 0 then d
          else (case d of Invalid \<Rightarrow> Invalid | Time t \<Rightarrow> timeClip (t + n * msPerDay)))"

definition addMonths :: "date \<Rightarrow> int \<Rightarrow> date" where
  \<comment> \<open>date-fns: the same day of the month, or the last day of a shorter month.\<close>
  "addMonths d amount =
     (if amount = 0 then d
      else case d of Invalid \<Rightarrow> Invalid
        | Time t \<Rightarrow>
            (let dayOfMonth = getDate t
             in case setMonth t (getMonth t + amount + 1) 0 of
                  Invalid \<Rightarrow> Invalid
                | Time e \<Rightarrow>
                    if getDate e \<le> dayOfMonth then Time e
                    else setFullYear t (getFullYear e) (getMonth e) dayOfMonth))"

definition endOfDay :: "date \<Rightarrow> date" where
  "endOfDay d = (case d of Invalid \<Rightarrow> Invalid
     | Time t \<Rightarrow> timeClip ((t div msPerDay) * msPerDay + (msPerDay - 1)))"

definition startOfDay :: "date \<Rightarrow> date" where
  "startOfDay d = (case d of Invalid \<Rightarrow> Invalid
     | Time t \<Rightarrow> timeClip ((t div msPerDay) * msPerDay))"

record platform =
  now :: int
  dateParse :: "string \<Rightarrow> int option"

text \<open>
  What the code reads from its surroundings: \<open>now\<close> is the time value of
  \<open>new Date()\<close> and of \<open>Date.now()\<close>, read once for a call; \<open>dateParse\<close> is
  \<open>Date.parse\<close>, which the language leaves to the implementation outside the ISO
  format (\<^const>\<open>None\<close> is NaN).
\<close>

definition newDateOfString :: "platform \<Rightarrow> string \<Rightarrow> date" where
  "newDateOfString p s = (case dateParse p s of None \<Rightarrow> Invalid | Some t \<Rightarrow> timeClip t)"

section \<open>parseSmartDateString\<close>

record parsedComponents =
  relative :: "string option"
  time :: "string option"
  weekday :: "string option"
  date :: "string option"
  modifiers :: "string list option"

record DateParseResult =
  date :: date
  confidence :: rat
  originalInput :: string
  parsedComponents :: parsedComponents

definition bs :: string where
  \<comment> \<open>The backslash of a pattern's source text.\<close>
  "bs = [CHR 0x5C]"

definition digits12 :: re where
  \<comment> \<open>\<open>\d{1,2}\<close>\<close>
  "digits12 = Rep Digit 1 (Some 2)"

definition ampm :: re where
  "ampm = lits [''am'', ''pm'']"

definition timePatterns :: "regexp list" where
  "timePatterns =
     [\<lparr>src = ''/'' @ bs @ ''b('' @ bs @ ''d{1,2})(?::('' @ bs @ ''d{2}))?'' @ bs @ ''s*(am|pm)'' @ bs @ ''b/i'',
       icase = True,
       body = seqs [WordB, Grp 1 digits12,
                    Opt (Seq (Lit '':'') (Grp 2 (Rep Digit 2 (Some 2)))),
                    Rep Space 0 None, Grp 3 ampm, WordB]\<rparr>,
      \<lparr>src = ''/'' @ bs @ ''b('' @ bs @ ''d{1,2}):('' @ bs @ ''d{2})'' @ bs @ ''b/'',
       icase = False,
       body = seqs [WordB, Grp 1 digits12, Lit '':'', Grp 2 (Rep Digit 2 (Some 2)), WordB]\<rparr>,
      \<lparr>src = ''/'' @ bs @ ''b('' @ bs @ ''d{1,2})'' @ bs @ ''s*(am|pm)'' @ bs @ ''b/i'',
       icase = True,
       body = seqs [WordB, Grp 1 digits12, Rep Space 0 None, Grp 2 ampm, WordB]\<rparr>]"

text \<open>
  The loop over \<open>timePatterns\<close>. It leaves \<open>timeMatch\<close> at the first pattern that
  matches (the \<open>break\<close>), whether or not the hour and the minute are in range, and
  \<open>extractedTime\<close> set only if they are.
\<close>

definition timeOfMatch :: "rmatch \<Rightarrow> (int \<times> int) option" where
  "timeOfMatch m =
     (let hours0 = (case grp m 1 of None \<Rightarrow> None | Some g \<Rightarrow> parseInt g);
          minutes = (case grp m 2 of None \<Rightarrow> Some 0
                     | Some g \<Rightarrow> if g = [] then Some 0 else parseInt g);
          ampm = map_option toLowerCase (grp m 3);
          hours = (case hours0 of None \<Rightarrow> None
                   | Some h \<Rightarrow>
                       if ampm = Some ''pm'' \<and> h \<noteq> 12 then Some (h + 12)
                       else if ampm = Some ''am'' \<and> h = 12 then Some 0
                       else Some h)
      in case (hours, minutes) of
           (Some h, Some mi) \<Rightarrow>
             if 0 \<le> h \<and> h \<le> 23 \<and> 0 \<le> mi \<and> mi \<le> 59 then Some (h, mi) else None
         | _ \<Rightarrow> None)"

fun timeLoop :: "regexp list \<Rightarrow> string \<Rightarrow> rmatch option \<times> (int \<times> int) option" where
  "timeLoop [] s = (None, None)"
| "timeLoop (pat # pats) s =
     (case rmatch pat s of
        None \<Rightarrow> timeLoop pats s
      | Some m \<Rightarrow> (Some m, timeOfMatch m))"

text \<open>
  The local variables that the resolvers update: \<open>confidence\<close>, \<open>parsedDate\<close>
  (\<^const>\<open>None\<close> while it is \<open>null\<close>) and \<open>components\<close>.
\<close>

record pstate =
  conf :: rat
  parsed :: "date option"
  comps :: parsedComponents

definition noComponents :: parsedComponents where
  "noComponents = \<lparr>relative = None, time = None, weekday = None, date = None, modifiers = None\<rparr>"

definition afterTime :: "rmatch option \<times> (int \<times> int) option \<Rightarrow> pstate" where
  \<comment> \<open>The state after the time loop: the weight 0.3 and the component are set on
      acceptance only.\<close>
  "afterTime tm =
     (case tm of
        (Some m, Some hm) \<Rightarrow>
          \<lparr>conf = dadd 0 lit_0_3, parsed = None,
           comps = noComponents\<lparr>time := Some (m0 m)\<rparr>\<rparr>
      | _ \<Rightarrow> \<lparr>conf = 0, parsed = None, comps = noComponents\<rparr>)"

definition inputWithoutTime :: "string \<Rightarrow> rmatch option \<Rightarrow> string" where
  "inputWithoutTime trimmed timeMatch =
     (case timeMatch of Some m \<Rightarrow> trim (replace trimmed (m0 m) []) | None \<Rightarrow> trimmed)"

subsection \<open>Relative patterns\<close>

datatype handler = AddMonths int | InDays | DaysAgo | EndOfDay | StartOfDay

record relativePattern =
  pattern :: regexp
  days :: "int option"
  handler :: "handler option"
  rconfidence :: rat

definition anchored :: "string \<Rightarrow> re \<Rightarrow> regexp" where
  \<comment> \<open>\<open>/^...$/i\<close>\<close>
  "anchored source r = \<lparr>src = ''/^'' @ source @ ''$/i'', icase = True, body = seqs [Bol, r, Eol]\<rparr>"

definition relativePatterns :: "relativePattern list" where
  "relativePatterns =
     [\<lparr>pattern = anchored ''(today|now)'' (Grp 1 (lits [''today'', ''now''])),
       days = Some 0, handler = None, rconfidence = lit_0_9\<rparr>,
      \<lparr>pattern = anchored ''tomorrow'' (Lit ''tomorrow''),
       days = Some 1, handler = None, rconfidence = lit_0_9\<rparr>,
      \<lparr>pattern = anchored ''yesterday'' (Lit ''yesterday''),
       days = Some (- 1), handler = None, rconfidence = lit_0_9\<rparr>,
      \<lparr>pattern = anchored ''(next week|in a week)'' (Grp 1 (lits [''next week'', ''in a week''])),
       days = Some 7, handler = None, rconfidence = lit_0_8\<rparr>,
      \<lparr>pattern = anchored ''(last week|a week ago)'' (Grp 1 (lits [''last week'', ''a week ago''])),
       days = Some (- 7), handler = None, rconfidence = lit_0_8\<rparr>,
      \<lparr>pattern = anchored ''(next month|in a month)'' (Grp 1 (lits [''next month'', ''in a month''])),
       days = None, handler = Some (AddMonths 1), rconfidence = lit_0_8\<rparr>,
      \<lparr>pattern = anchored ''(last month|a month ago)'' (Grp 1 (lits [''last month'', ''a month ago''])),
       days = None, handler = Some (AddMonths (- 1)), rconfidence = lit_0_8\<rparr>,
      \<lparr>pattern = anchored (''in ('' @ bs @ ''d+) days?'')
                   (seqs [Lit ''in '', Grp 1 (Rep Digit 1 None), Lit '' day'', Opt (Lit ''s'')]),
       days = None, handler = Some InDays, rconfidence = lit_0_85\<rparr>,
      \<lparr>pattern = anchored (''('' @ bs @ ''d+) days? ago'')
                   (seqs [Grp 1 (Rep Digit 1 None), Lit '' day'', Opt (Lit ''s''), Lit '' ago'']),
       days = None, handler = Some DaysAgo, rconfidence = lit_0_85\<rparr>,
      \<lparr>pattern = anchored ''(end of day|eod)'' (Grp 1 (lits [''end of day'', ''eod''])),
       days = None, handler = Some EndOfDay, rconfidence = lit_0_7\<rparr>,
      \<lparr>pattern = anchored ''(start of day|beginning of day)''
                   (Grp 1 (lits [''start of day'', ''beginning of day''])),
       days = None, handler = Some StartOfDay, rconfidence = lit_0_7\<rparr>]"

definition groupInt :: "rmatch \<Rightarrow> nat \<Rightarrow> int option" where
  \<comment> \<open>\<open>parseInt(match[k], 10)\<close>\<close>
  "groupInt m k = (case grp m k of None \<Rightarrow> None | Some g \<Rightarrow> parseInt g)"

fun runHandler :: "int \<Rightarrow> handler \<Rightarrow> rmatch \<Rightarrow> date" where
  "runHandler nw (AddMonths k) m = addMonths (Time nw) k"
| "runHandler nw InDays m = addDays (Time nw) (groupInt m 1)"
| "runHandler nw DaysAgo m = addDays (Time nw) (map_option uminus (groupInt m 1))"
| "runHandler nw EndOfDay m = endOfDay (Time nw)"
| "runHandler nw StartOfDay m = startOfDay (Time nw)"

fun firstRelative :: "relativePattern list \<Rightarrow> string \<Rightarrow> (relativePattern \<times> rmatch) option" where
  \<comment> \<open>The entry at which the loop over \<open>relativePatterns\<close> breaks, with its match.\<close>
  "firstRelative [] s = None"
| "firstRelative (r # rs) s =
     (case rmatch (pattern r) s of None \<Rightarrow> firstRelative rs s | Some m \<Rightarrow> Some (r, m))"

definition relativeStep :: "int \<Rightarrow> string \<Rightarrow> pstate \<Rightarrow> pstate" where
  "relativeStep nw s st =
     (case firstRelative relativePatterns s of
        None \<Rightarrow> st
      | Some (r, m) \<Rightarrow>
          st\<lparr>parsed :=
               (case handler r of
                  Some h \<Rightarrow> Some (runHandler nw h m)
                | None \<Rightarrow> (case days r of
                            Some d \<Rightarrow> Some (addDays (Time nw) (Some d))
                          | None \<Rightarrow> parsed st)),
             comps := (comps st)\<lparr>relative := Some (m0 m)\<rparr>,
             conf := dadd (conf st) (rconfidence r)\<rparr>)"

subsection \<open>Weekday patterns\<close>

definition weekdays :: "string list" where
  "weekdays = [''monday'', ''tuesday'', ''wednesday'', ''thursday'', ''friday'', ''saturday'', ''sunday'']"

definition weekdayPattern :: regexp where
  "weekdayPattern =
     \<lparr>src = ''/^(next'' @ bs @ ''s+)?(monday|tuesday|wednesday|thursday|friday|saturday|sunday)$/i'',
      icase = True,
      body = seqs [Bol, Opt (Grp 1 (Seq (Lit ''next'') (Rep Space 1 None))), Grp 2 (lits weekdays), Eol]\<rparr>"

definition truthy :: "string option \<Rightarrow> bool" where
  \<comment> \<open>A capture group as a condition: neither undefined nor empty.\<close>
  "truthy g = (case g of None \<Rightarrow> False | Some x \<Rightarrow> x \<noteq> [])"

definition weekdayStep :: "int \<Rightarrow> string \<Rightarrow> pstate \<Rightarrow> pstate" where
  "weekdayStep nw s st =
     (case rmatch weekdayPattern s of
        None \<Rightarrow> st
      | Some m \<Rightarrow>
          (let isNext = truthy (grp m 1);
               weekdayName = toLowerCase (case grp m 2 of Some g \<Rightarrow> g | None \<Rightarrow> []);
               targetDayIndex = indexOf weekdays weekdayName
           in if targetDayIndex \<noteq> - 1 then
                (let targetDay = targetDayIndex + 1;
                     today = (if getDay nw = 0 then 7 else getDay nw);
                     d0 = targetDay - today;
                     daysUntilTarget = (if isNext \<or> d0 \<le> 0 then d0 + 7 else d0)
                 in st\<lparr>parsed := Some (addDays (Time nw) (Some daysUntilTarget)),
                       comps := (comps st)\<lparr>weekday := Some (m0 m)\<rparr>,
                       conf := dadd (conf st) (if isNext then lit_0_85 else lit_0_8)\<rparr>)
              else st))"

subsection \<open>Month and day patterns\<close>

definition monthAlternatives :: "string list" where
  \<comment> \<open>The alternatives of the month group, which are also the entries of \<open>monthNames\<close>.\<close>
  "monthAlternatives =
     [''jan'', ''january'', ''feb'', ''february'', ''mar'', ''march'', ''apr'', ''april'',
      ''may'', ''jun'', ''june'', ''jul'', ''july'', ''aug'', ''august'', ''sep'', ''september'',
      ''oct'', ''october'', ''nov'', ''november'', ''dec'', ''december'']"

definition monthNames :: "string list" where
  "monthNames = monthAlternatives"

definition monthGroupSource :: string where
  "monthGroupSource =
     ''(jan|january|feb|february|mar|march|apr|april|may|jun|june|jul|july|aug|august|sep|september|oct|october|nov|november|dec|december)''"

definition monthPatterns :: "regexp list" where
  "monthPatterns =
     [\<lparr>src = ''/'' @ bs @ ''b'' @ monthGroupSource @ bs @ ''s+('' @ bs @ ''d{1,2})(?:'' @ bs @ ''s+(?:at|@))?/i'',
       icase = True,
       body = seqs [WordB, Grp 1 (lits monthAlternatives), Rep Space 1 None, Grp 2 digits12,
                    Opt (Seq (Rep Space 1 None) (lits [''at'', ''@'']))]\<rparr>,
      \<lparr>src = ''/'' @ bs @ ''b('' @ bs @ ''d{1,2})'' @ bs @ ''s+'' @ monthGroupSource @ ''/i'',
       icase = True,
       body = seqs [WordB, Grp 1 digits12, Rep Space 1 None, Grp 2 (lits monthAlternatives)]\<rparr>,
      \<lparr>src = ''/'' @ bs @ ''b('' @ bs @ ''d{1,2})[/-]('' @ bs @ ''d{1,2})'' @ bs @ ''b/'',
       icase = False,
       body = seqs [WordB, Grp 1 digits12, Rep (AnyOf ''/-'') 1 (Some 1), Grp 2 digits12, WordB]\<rparr>]"

definition monthOfName :: "string \<Rightarrow> int" where
  \<comment> \<open>\<open>Math.floor(monthNames.findIndex(name => monthStr.startsWith(name.substring(0, 3))) / 2)\<close>\<close>
  "monthOfName monthStr = findIndex (\<lambda>name. startsWith monthStr (take 3 name)) monthNames div 2"

definition monthAndDay :: "regexp \<Rightarrow> rmatch \<Rightarrow> int option \<times> int option" where
  \<comment> \<open>The three branches that compute \<open>month\<close> and \<open>day\<close>; the first is taken when the
      text of the pattern contains \<open>jan|january\<close>.\<close>
  "monthAndDay pat m =
     (if includesStr (src pat) ''jan|january'' then
        (Some (monthOfName (toLowerCase (case grp m 1 of Some g \<Rightarrow> g | None \<Rightarrow> []))),
         groupInt m 2)
      else if truthy (grp m 2) \<and> groupInt m 2 = None then
        (Some (monthOfName (toLowerCase (case grp m 2 of Some g \<Rightarrow> g | None \<Rightarrow> []))),
         groupInt m 1)
      else (map_option (\<lambda>k. k - 1) (groupInt m 1), groupInt m 2))"

definition monthBody :: "int \<Rightarrow> regexp \<Rightarrow> rmatch \<Rightarrow> pstate \<Rightarrow> pstate" where
  "monthBody nw pat m st =
     (case monthAndDay pat m of
        (Some month, Some day) \<Rightarrow>
          if 0 \<le> month \<and> month \<le> 11 \<and> 1 \<le> day \<and> day \<le> 31 then
            (let year = getFullYear nw;
                 d = newDate year month day;
                 d' = (if dateLess d (Time nw) then newDate (year + 1) month day else d)
             in st\<lparr>parsed := Some d',
                   comps := (comps st)\<lparr>parsedComponents.date := Some (m0 m)\<rparr>,
                   conf := dadd (conf st) lit_0_75\<rparr>)
          else st
      | _ \<Rightarrow> st)"

fun monthLoop :: "int \<Rightarrow> regexp list \<Rightarrow> string \<Rightarrow> pstate \<Rightarrow> pstate" where
  \<comment> \<open>The loop breaks at the first pattern that matches, accepted or not.\<close>
  "monthLoop nw [] s st = st"
| "monthLoop nw (pat # pats) s st =
     (case rmatch pat s of
        None \<Rightarrow> monthLoop nw pats s st
      | Some m \<Rightarrow> monthBody nw pat m st)"

subsection \<open>Fallback and result\<close>

definition fallbackStep :: "platform \<Rightarrow> string \<Rightarrow> pstate \<Rightarrow> pstate" where
  "fallbackStep p input st =
     (let standardDate = newDateOfString p input
      in if isValid standardDate
         then st\<lparr>parsed := Some standardDate, conf := dadd (conf st) lit_0_5\<rparr>
         else st)"

definition resolve :: "platform \<Rightarrow> string \<Rightarrow> string \<Rightarrow> pstate \<Rightarrow> pstate" where
  \<comment> \<open>The resolvers in the order of the source, each run only while no date is set.\<close>
  "resolve p input s st0 =
     (let st1 = relativeStep (now p) s st0;
          st2 = (if parsed st1 = None then weekdayStep (now p) s st1 else st1);
          st3 = (if parsed st2 = None then monthLoop (now p) monthPatterns s st2 else st2)
      in if parsed st3 = None then fallbackStep p input st3 else st3)"

definition applyTime :: "(int \<times> int) option \<Rightarrow> date \<Rightarrow> date" where
  "applyTime extractedTime d =
     (case extractedTime of
        Some (hours, minutes) \<Rightarrow> setHours (setMinutes d minutes) hours
      | None \<Rightarrow> d)"

definition parseSmartDateString :: "platform \<Rightarrow> string \<Rightarrow> DateParseResult option" where
  "parseSmartDateString p input =
     (if input = [] \<or> trim input = [] then None
      else
        let trimmed = toLowerCase (trim input);
            tm = timeLoop timePatterns trimmed;
            st = resolve p input (inputWithoutTime trimmed (fst tm)) (afterTime tm)
        in case parsed st of
             None \<Rightarrow> None
           | Some d \<Rightarrow>
               if conf st < lit_0_3 then None
               else Some \<lparr>date = applyTime (snd tm) d,
                          confidence = min (conf st) lit_1_0,
                          originalInput = input,
                          parsedComponents = comps st\<rparr>)"

section \<open>generateSmartSuggestions\<close>

text \<open>
  A suggestion keeps the fields that the code computes with. The fields \<open>label\<close> and
  \<open>preview\<close> are display texts written with date-fns \<open>format\<close>; nothing reads them
  back, and they are left out.
\<close>

datatype category = CRelative | CTime | CDate | CNatural

record SmartSuggestion =
  "value" :: string
  confidence :: rat
  parsedDate :: "date option"
  category :: category

definition baseSuggestions :: "bool \<Rightarrow> (string \<times> category \<times> rat) list" where
  "baseSuggestions showTime =
     [(''tomorrow'', CRelative, lit_1_0),
      (''next week'', CRelative, lit_1_0),
      (''next monday'', CRelative, lit_0_9)]
     @ (if showTime
        then [(''tomorrow 10am'', CRelative, lit_0_9),
              (''end of day'', CRelative, lit_0_8)]
        else [])"

definition initialSuggestions :: "platform \<Rightarrow> bool \<Rightarrow> SmartSuggestion list" where
  \<comment> \<open>The branch for an empty input: it returns at once.\<close>
  "initialSuggestions p showTime =
     take 4 (map (\<lambda>(v, cat, c).
                    \<lparr>value = v, confidence = c,
                     parsedDate = map_option DateParseResult.date (parseSmartDateString p v),
                     category = cat\<rparr>)
                 (baseSuggestions showTime))"

definition candidate :: "platform \<Rightarrow> string \<Rightarrow> rat \<Rightarrow> category \<Rightarrow> SmartSuggestion list" where
  \<comment> \<open>\<open>if (parseResult) push(...)\<close>: the entry, if the text parses.\<close>
  "candidate p v c cat =
     (case parseSmartDateString p v of
        None \<Rightarrow> []
      | Some r \<Rightarrow> [\<lparr>value = v, confidence = c,
                    parsedDate = Some (DateParseResult.date r), category = cat\<rparr>])"

definition naturalSuggestion :: "string \<Rightarrow> DateParseResult option \<Rightarrow> SmartSuggestion list" where
  "naturalSuggestion input currentParse =
     (case currentParse of
        None \<Rightarrow> []
      | Some r \<Rightarrow>
          if lit_0_5 < DateParseResult.confidence r
          then [\<lparr>value = input,
                 confidence = min (dadd (DateParseResult.confidence r) lit_0_2) lit_1_0,
                 parsedDate = Some (DateParseResult.date r),
                 category = CNatural\<rparr>]
          else [])"

definition timeKeywords :: "string list" where
  "timeKeywords = [''am'', ''pm'', '':'', ''morning'', ''afternoon'', ''evening'', ''night'']"

definition timeSuggestionBases :: "(string \<times> string list) list" where
  "timeSuggestionBases =
     [(''today'', [''9am'', ''12pm'', ''2pm'', ''5pm'']),
      (''tomorrow'', [''9am'', ''10am'', ''2pm'', ''3pm''])]"

definition timeSuggestions :: "platform \<Rightarrow> string \<Rightarrow> bool \<Rightarrow> SmartSuggestion list" where
  "timeSuggestions p trimmed showTime =
     (if showTime \<and> list_ex (\<lambda>keyword. includesStr trimmed keyword) timeKeywords
      then concat (map (\<lambda>(base, times).
                     concat (map (\<lambda>t. candidate p (base @ '' '' @ t) lit_0_85 CTime) times))
                   timeSuggestionBases)
      else [])"

definition months :: "string list" where
  "months = [''jan'', ''feb'', ''mar'', ''apr'', ''may'', ''jun'',
             ''jul'', ''aug'', ''sep'', ''oct'', ''nov'', ''dec'']"

definition belowConfidence :: "DateParseResult option \<Rightarrow> rat \<Rightarrow> bool" where
  \<comment> \<open>\<open>!currentParse || currentParse.confidence < c\<close>\<close>
  "belowConfidence currentParse c =
     (case currentParse of None \<Rightarrow> True | Some r \<Rightarrow> DateParseResult.confidence r < c)"

definition dayExists :: "int \<Rightarrow> int \<Rightarrow> int \<Rightarrow> bool" where
  \<comment> \<open>\<open>day <= new Date(now.getFullYear(), monthIndex + 1, 0).getDate()\<close>\<close>
  "dayExists nw monthIndex day =
     (case newDate (getFullYear nw) (monthIndex + 1) 0 of
        Invalid \<Rightarrow> False
      | Time t \<Rightarrow> day \<le> getDate t)"

definition monthSuggestions ::
  "platform \<Rightarrow> string \<Rightarrow> DateParseResult option \<Rightarrow> SmartSuggestion list" where
  "monthSuggestions p trimmed currentParse =
     (let matchedMonths = filter (\<lambda>month. includesStr month trimmed \<or> includesStr trimmed month) months
      in if belowConfidence currentParse lit_0_7
         then concat (map (\<lambda>month.
                 let monthIndex = indexOf months month;
                     daysToShow = filter (\<lambda>day. dayExists (now p) monthIndex (int day)) [1, 15]
                 in concat (map (\<lambda>day.
                      let suggestion = month @ '' '' @ decimal day
                      in if suggestion \<noteq> trimmed
                         then candidate p suggestion lit_0_65 CDate
                         else [])
                    daysToShow))
               (take 1 matchedMonths))
         else [])"

definition weekdayVariants :: "platform \<Rightarrow> bool \<Rightarrow> string \<Rightarrow> string \<Rightarrow> SmartSuggestion list" where
  \<comment> \<open>The body of the loop over the two prefixes, for one weekday.\<close>
  "weekdayVariants p showTime weekdayName prefix =
     (let suggestion = prefix @ weekdayName;
          c = (if prefix \<noteq> [] then lit_0_85 else lit_0_8)
      in case parseSmartDateString p suggestion of
           None \<Rightarrow> []
         | Some r \<Rightarrow>
             \<lparr>value = suggestion, confidence = c,
              parsedDate = Some (DateParseResult.date r), category = CRelative\<rparr>
             # (if showTime
                then concat (map (\<lambda>t. candidate p (suggestion @ '' '' @ t) (dmul c lit_0_9) CTime)
                               [''9am'', ''2pm'', ''5pm''])
                else []))"

definition weekdaySuggestions :: "platform \<Rightarrow> string \<Rightarrow> bool \<Rightarrow> SmartSuggestion list" where
  "weekdaySuggestions p trimmed showTime =
     (let matchedWeekdays =
            filter (\<lambda>day. includesStr day trimmed \<or> includesStr trimmed (take 3 day)) weekdays
      in concat (map (\<lambda>weekdayName. concat (map (weekdayVariants p showTime weekdayName) [[], ''next '']))
                   matchedWeekdays))"

definition contextualSuggestions ::
  "platform \<Rightarrow> string \<Rightarrow> bool \<Rightarrow> DateParseResult option \<Rightarrow> SmartSuggestion list" where
  "contextualSuggestions p trimmed showTime currentParse =
     timeSuggestions p trimmed showTime
     @ monthSuggestions p trimmed currentParse
     @ weekdaySuggestions p trimmed showTime"

definition plain :: "string \<Rightarrow> re \<Rightarrow> regexp" where
  \<comment> \<open>\<open>/.../\<close> with no flag.\<close>
  "plain source r = \<lparr>src = ''/'' @ source @ ''/'', icase = False, body = r\<rparr>"

definition relativeSuggestions :: "(regexp \<times> string list) list" where
  "relativeSuggestions =
     [(plain ''today|now'' (lits [''today'', ''now'']),
       [''today'', ''today 9am'', ''today 2pm'', ''today 5pm'', ''end of day'']),
      (plain ''tomorrow|tom'' (lits [''tomorrow'', ''tom'']),
       [''tomorrow'', ''tomorrow 9am'', ''tomorrow 10am'', ''tomorrow 2pm'']),
      (plain ''next|week'' (lits [''next'', ''week'']),
       [''next week'', ''next monday'', ''next friday'', ''in 7 days'']),
      (plain ''month'' (Lit ''month''),
       [''next month'', ''in 30 days'', ''end of month''])]"

definition hasAmPm :: "string \<Rightarrow> bool" where
  "hasAmPm s = (includesStr s ''am'' \<or> includesStr s ''pm'')"

fun relativeLoop ::
  "platform \<Rightarrow> bool \<Rightarrow> string list \<Rightarrow> SmartSuggestion list \<Rightarrow> SmartSuggestion list" where
  \<comment> \<open>The loop over the phrases of the family that matched; each phrase is checked
      against the list as it has grown so far.\<close>
  "relativeLoop p showTime [] suggestions = suggestions"
| "relativeLoop p showTime (suggestion # rest) suggestions =
     relativeLoop p showTime rest
       (if \<not> showTime \<and> hasAmPm suggestion then suggestions
        else case parseSmartDateString p suggestion of
               None \<Rightarrow> suggestions
             | Some r \<Rightarrow>
                 if list_ex (\<lambda>s. value s = suggestion) suggestions then suggestions
                 else suggestions @
                      [\<lparr>value = suggestion, confidence = lit_0_8,
                        parsedDate = Some (DateParseResult.date r),
                        category = (if hasAmPm suggestion then CTime else CRelative)\<rparr>])"

fun relativeFamilies ::
  "platform \<Rightarrow> bool \<Rightarrow> string \<Rightarrow> (regexp \<times> string list) list \<Rightarrow> SmartSuggestion list
     \<Rightarrow> SmartSuggestion list" where
  \<comment> \<open>Only the first family whose pattern is found in the text is used.\<close>
  "relativeFamilies p showTime trimmed [] suggestions = suggestions"
| "relativeFamilies p showTime trimmed ((pat, relSuggestions) # rest) suggestions =
     (if test pat trimmed then relativeLoop p showTime (take 2 relSuggestions) suggestions
      else relativeFamilies p showTime trimmed rest suggestions)"

definition candidatePool :: "platform \<Rightarrow> string \<Rightarrow> bool \<Rightarrow> SmartSuggestion list" where
  \<comment> \<open>The list \<open>suggestions\<close> as it stands before the sorting and filtering.\<close>
  "candidatePool p input showTime =
     (let trimmed = toLowerCase (trim input);
          currentParse = parseSmartDateString p input;
          suggestions = naturalSuggestion input currentParse
                        @ take 8 (contextualSuggestions p trimmed showTime currentParse)
      in if belowConfidence currentParse lit_0_8
         then relativeFamilies p showTime trimmed relativeSuggestions suggestions
         else suggestions)"

definition firstByValue :: "SmartSuggestion list \<Rightarrow> SmartSuggestion list" where
  \<comment> \<open>\<open>filter((suggestion, index, self) => index === self.findIndex(s => s.value === suggestion.value))\<close>\<close>
  "firstByValue self =
     map (\<lambda>i. self ! i)
       (filter (\<lambda>i. int i = findIndex (\<lambda>s. value s = value (self ! i)) self) [0 ..< length self])"

definition byConfidence :: "SmartSuggestion list \<Rightarrow> SmartSuggestion list" where
  \<comment> \<open>\<open>sort((a, b) => b.confidence - a.confidence)\<close>: descending, and stable as the
      language requires of \<open>sort\<close>.\<close>
  "byConfidence xs = sort_key (\<lambda>s. - confidence s) xs"

definition filteredSuggestions :: "SmartSuggestion list \<Rightarrow> SmartSuggestion list" where
  \<comment> \<open>A confidence is a finite double here, never NaN, so the second filter keeps the
      positive ones.\<close>
  "filteredSuggestions suggestions =
     byConfidence (filter (\<lambda>s. 0 < confidence s) (firstByValue suggestions))"

definition smartFilter :: "SmartSuggestion list \<Rightarrow> SmartSuggestion list" where
  "smartFilter filtered =
     (case filtered of
        [] \<Rightarrow> take 8 filtered
      | best # _ \<Rightarrow>
          (let maxConfidence = confidence best
           in if lit_0_9 \<le> maxConfidence
              then take 3 (filter (\<lambda>s. lit_0_85 \<le> confidence s) filtered)
              else if lit_0_7 \<le> maxConfidence
              then take 5 (filter (\<lambda>s. lit_0_6 \<le> confidence s) filtered)
              else take 6 filtered))"

definition generateSmartSuggestions :: "platform \<Rightarrow> string \<Rightarrow> bool \<Rightarrow> SmartSuggestion list" where
  "generateSmartSuggestions p input showTime =
     (if toLowerCase (trim input) = [] then initialSuggestions p showTime
      else smartFilter (filteredSuggestions (candidatePool p input showTime)))"

section \<open>Due dates\<close>

text \<open>
  A due date is a time value in milliseconds, or absent (\<open>null\<close> or \<open>undefined\<close>).
  The field \<open>text\<close> of the status is display text written with date-fns and is left out.
\<close>

datatype status = Overdue | DueToday | DueSoon | NotDue | NoDueDate

record dueDateStatus =
  status :: status
  className :: string

definition falsy :: "int option \<Rightarrow> bool" where
  \<comment> \<open>\<open>!dueDate\<close>: absent, or the number 0.\<close>
  "falsy dueDate = (case dueDate of None \<Rightarrow> True | Some d \<Rightarrow> d = 0)"

definition isOverdue :: "platform \<Rightarrow> int option \<Rightarrow> bool" where
  "isOverdue p dueDate =
     (if falsy dueDate then False
      else case dueDate of Some d \<Rightarrow> d < now p | None \<Rightarrow> False)"

definition endOfToday :: "int \<Rightarrow> int" where
  \<comment> \<open>\<open>today.setHours(23, 59, 59, 999)\<close>\<close>
  "endOfToday nw = (nw div msPerDay) * msPerDay + (msPerDay - 1)"

definition endOfTomorrow :: "int \<Rightarrow> int" where
  \<comment> \<open>\<open>tomorrow.setDate(tomorrow.getDate() + 1); tomorrow.setHours(23, 59, 59, 999)\<close>\<close>
  "endOfTomorrow nw = ((endOfToday nw + msPerDay) div msPerDay) * msPerDay + (msPerDay - 1)"

definition getDueDateStatus :: "platform \<Rightarrow> int option \<Rightarrow> dueDateStatus" where
  "getDueDateStatus p dueDate =
     (if falsy dueDate then \<lparr>status = NoDueDate, className = ''text-gray-500''\<rparr>
      else case dueDate of
        None \<Rightarrow> \<lparr>status = NoDueDate, className = ''text-gray-500''\<rparr>
      | Some d \<Rightarrow>
          if d < now p then \<lparr>status = Overdue, className = ''text-red-600 font-medium''\<rparr>
          else if d \<le> endOfToday (now p)
          then \<lparr>status = DueToday, className = ''text-orange-600 font-medium''\<rparr>
          else if d \<le> endOfTomorrow (now p)
          then \<lparr>status = DueSoon, className = ''text-yellow-600''\<rparr>
          else \<lparr>status = NotDue, className = ''text-gray-600''\<rparr>)"

section \<open>Auxiliary definitions for the statements\<close>

definition clockAt :: "int \<Rightarrow> platform" where
  \<comment> \<open>A platform whose clock reads \<open>t\<close> and whose \<open>Date.parse\<close> recognises no text.\<close>
  "clockAt t = \<lparr>now = t, dateParse = (\<lambda>s. None)\<rparr>"

definition relDate :: "int \<Rightarrow> relativePattern \<Rightarrow> rmatch \<Rightarrow> date" where
  \<comment> \<open>The date that an entry of \<open>relativePatterns\<close> assigns.\<close>
  "relDate nw r m =
     (case handler r of Some h \<Rightarrow> runHandler nw h m | None \<Rightarrow> addDays (Time nw) (days r))"

definition zeroState :: pstate where
  \<comment> \<open>The state in which no time was extracted.\<close>
  "zeroState = \<lparr>conf = 0, parsed = None, comps = noComponents\<rparr>"

definition finish :: "string \<Rightarrow> (int \<times> int) option \<Rightarrow> pstate \<Rightarrow> DateParseResult option" where
  \<comment> \<open>The end of \<open>parseSmartDateString\<close>, from the state the resolvers leave.\<close>
  "finish input extractedTime st =
     (case parsed st of
        None \<Rightarrow> None
      | Some d \<Rightarrow>
          if conf st < lit_0_3 then None
          else Some \<lparr>date = applyTime extractedTime d,
                     confidence = min (conf st) lit_1_0,
                     originalInput = input,
                     parsedComponents = comps st\<rparr>)"

fun blocked :: "char set \<Rightarrow> re \<Rightarrow> bool" where
  \<comment> \<open>A sufficient condition for a pattern to match nowhere in a subject that has no
      character matching one of \<open>A\<close>: every way through the pattern passes a literal
      with a character of \<open>A\<close>.\<close>
  "blocked A (Lit l) = (\<exists>p\<in>set l. p \<in> A)"
| "blocked A (Seq a b) = (blocked A a \<or> blocked A b)"
| "blocked A (Alt a b) = (blocked A a \<and> blocked A b)"
| "blocked A (Grp n a) = blocked A a"
| "blocked A (Rep k lo hi) = False"
| "blocked A (Opt a) = False"
| "blocked A WordB = False"
| "blocked A Bol = False"
| "blocked A Eol = False"

definition weights :: "rat set" where
  \<comment> \<open>The weights that the date resolvers contribute.\<close>
  "weights = {lit_0_9, lit_0_8, lit_0_85, lit_0_7, lit_0_75, lit_0_5}"

section \<open>Values of the literals and of their sums\<close>

lemma lit_values:
  "lit_0_2 = 3602879701896397 / 18014398509481984"
  "lit_0_3 = 5404319552844595 / 18014398509481984"
  "lit_0_5 = 1 / 2"
  "lit_0_6 = 5404319552844595 / 9007199254740992"
  "lit_0_65 = 5854679515581645 / 9007199254740992"
  "lit_0_7 = 3152519739159347 / 4503599627370496"
  "lit_0_75 = 3 / 4"
  "lit_0_8 = 3602879701896397 / 4503599627370496"
  "lit_0_85 = 7656119366529843 / 9007199254740992"
  "lit_0_9 = 8106479329266893 / 9007199254740992"
  "lit_1_0 = 1"
  by code_simp+

lemma dadd_zero:
  "dadd 0 lit_0_3 = lit_0_3"
  "dadd 0 lit_0_5 = lit_0_5"
  "dadd 0 lit_0_7 = lit_0_7"
  "dadd 0 lit_0_75 = lit_0_75"
  "dadd 0 lit_0_8 = lit_0_8"
  "dadd 0 lit_0_85 = lit_0_85"
  "dadd 0 lit_0_9 = lit_0_9"
  unfolding dadd_def lit_values by code_simp+

lemma dadd_time:
  "dadd lit_0_3 lit_0_5 = lit_0_8"
  "dadd lit_0_3 lit_0_7 = 1"
  "dadd lit_0_3 lit_0_75 = 4728779608739021 / 4503599627370496"
  "dadd lit_0_3 lit_0_8 = 2476979795053773 / 2251799813685248"
  "dadd lit_0_3 lit_0_85 = 2589569785738035 / 2251799813685248"
  "dadd lit_0_3 lit_0_9 = 5404319552844595 / 4503599627370496"
  unfolding dadd_def lit_values by code_simp+

lemma weights_ok:
  "\<not> dadd 0 lit_0_9 < lit_0_3"
  "\<not> dadd 0 lit_0_8 < lit_0_3"
  "\<not> dadd 0 lit_0_85 < lit_0_3"
  "\<not> dadd 0 lit_0_7 < lit_0_3"
  "\<not> dadd 0 lit_0_75 < lit_0_3"
  "\<not> dadd 0 lit_0_5 < lit_0_3"
  "\<not> dadd (dadd 0 lit_0_3) lit_0_9 < lit_0_3"
  "\<not> dadd (dadd 0 lit_0_3) lit_0_8 < lit_0_3"
  "\<not> dadd (dadd 0 lit_0_3) lit_0_85 < lit_0_3"
  "\<not> dadd (dadd 0 lit_0_3) lit_0_7 < lit_0_3"
  "\<not> dadd (dadd 0 lit_0_3) lit_0_75 < lit_0_3"
  "\<not> dadd (dadd 0 lit_0_3) lit_0_5 < lit_0_3"
  unfolding dadd_zero dadd_time by (simp_all add: lit_values)

section \<open>The resolvers, step by step\<close>

lemma trim_nonempty: "trim input \<noteq> [] \<Longrightarrow> input \<noteq> []"
  by (auto simp: trim_def)

lemma parse_finish:
  assumes "trim input \<noteq> []"
  shows "parseSmartDateString p input =
         finish input (snd (timeLoop timePatterns (toLowerCase (trim input))))
           (resolve p input
              (inputWithoutTime (toLowerCase (trim input))
                 (fst (timeLoop timePatterns (toLowerCase (trim input)))))
              (afterTime (timeLoop timePatterns (toLowerCase (trim input)))))"
  using assms trim_nonempty [OF assms]
  by (simp add: parseSmartDateString_def finish_def Let_def)

lemma firstRelative_Some:
  "firstRelative rs s = Some (r, m) \<Longrightarrow> r \<in> set rs \<and> rmatch (pattern r) s = Some m"
  by (induction rs) (auto split: option.splits)

lemma relativePatterns_handler:
  "r \<in> set relativePatterns \<Longrightarrow> handler r \<noteq> None \<or> days r \<noteq> None"
  by (auto simp: relativePatterns_def)

lemma relativePatterns_weight:
  "r \<in> set relativePatterns \<Longrightarrow> rconfidence r \<in> {lit_0_9, lit_0_8, lit_0_85, lit_0_7}"
  by (auto simp: relativePatterns_def)

lemma conf_afterTime: "conf (afterTime tm) = 0 \<or> conf (afterTime tm) = dadd 0 lit_0_3"
  by (auto simp: afterTime_def split: option.splits prod.splits)

lemma relativeStep_Some:
  assumes "firstRelative relativePatterns s = Some (r, m)"
  shows "relativeStep nw s st =
         st\<lparr>parsed := Some (relDate nw r m),
            comps := (comps st)\<lparr>relative := Some (m0 m)\<rparr>,
            conf := dadd (conf st) (rconfidence r)\<rparr>"
proof -
  from assms have "r \<in> set relativePatterns" by (simp add: firstRelative_Some)
  from relativePatterns_handler [OF this] show ?thesis using assms
    by (auto simp: relativeStep_def relDate_def split: option.splits)
qed

lemma relativeStep_None:
  "firstRelative relativePatterns s = None \<Longrightarrow> relativeStep nw s st = st"
  by (simp add: relativeStep_def)

section \<open>Claims\<close>

text \<open>
  C3. Whenever \<open>parseSmartDateString\<close> returns a result, its confidence lies between the
  literal 0.3 and 1.0; and when the resolvers leave an accumulated confidence below 0.3,
  no result is returned, whatever date they found.
\<close>

theorem confidence_bounds:
  "(parseSmartDateString p input = Some r \<longrightarrow>
      lit_0_3 \<le> DateParseResult.confidence r \<and> DateParseResult.confidence r \<le> lit_1_0)
   \<and> (conf st < lit_0_3 \<longrightarrow> finish input extractedTime st = None)"
  by (auto simp: parseSmartDateString_def finish_def Let_def lit_values
           split: if_splits option.splits)

text \<open>
  C9, as amended. A missing due date has status no-due-date; a due date other than 0 that
  is strictly before now has status overdue; the status is always one of the five.
\<close>

theorem due_date_status:
  "status (getDueDateStatus p None) = NoDueDate
   \<and> (d \<noteq> 0 \<and> d < now p \<longrightarrow> status (getDueDateStatus p (Some d)) = Overdue)
   \<and> status (getDueDateStatus p dueDate) \<in> {Overdue, DueToday, DueSoon, NotDue, NoDueDate}"
  by (cases "status (getDueDateStatus p dueDate)") (auto simp: getDueDateStatus_def falsy_def)

theorem due_date_status_witness:
  "(999::int) \<noteq> 0 \<and> 999 < now (clockAt 1000)
   \<and> status (getDueDateStatus (clockAt 1000) (Some 999)) = Overdue"
  using due_date_status [of "clockAt 1000" 999] by (simp add: clockAt_def)

text \<open>
  C9 as stated fails: with the clock at 1000, the due date 0 is strictly before now and
  its status is not overdue.
\<close>

theorem epoch_before_now_not_overdue:
  "(0::int) < now (clockAt 1000)
   \<and> status (getDueDateStatus (clockAt 1000) (Some 0)) \<noteq> Overdue"
  by (simp add: getDueDateStatus_def falsy_def clockAt_def)

text \<open>
  C10. The due date 0 counts as absent: its status is no-due-date and it is not overdue,
  whatever the clock reads.
\<close>

theorem epoch_is_no_due_date:
  "status (getDueDateStatus p (Some 0)) = NoDueDate \<and> \<not> isOverdue p (Some 0)"
  by (simp add: getDueDateStatus_def isOverdue_def falsy_def)

subsection \<open>The input tomorrow\<close>

lemma tomorrow_text:
  "trim ''tomorrow'' \<noteq> []"
  "toLowerCase (trim ''tomorrow'') = ''tomorrow''"
  "timeLoop timePatterns ''tomorrow'' = (None, None)"
  by code_simp+

lemma tomorrow_rel:
  "(case firstRelative relativePatterns ''tomorrow'' of None \<Rightarrow> False
    | Some (r, m) \<Rightarrow> days r = Some 1 \<and> handler r = None \<and> rconfidence r = lit_0_9 \<and> m0 m = ''tomorrow'')"
  by code_simp

lemma parse_tomorrow:
  "parseSmartDateString p ''tomorrow'' =
     Some \<lparr>DateParseResult.date = addDays (Time (now p)) (Some 1),
           DateParseResult.confidence = lit_0_9,
           originalInput = ''tomorrow'',
           parsedComponents = noComponents\<lparr>relative := Some ''tomorrow''\<rparr>\<rparr>"
proof -
  obtain r m where rm: "firstRelative relativePatterns ''tomorrow'' = Some (r, m)"
    and r: "days r = Some 1" "handler r = None" "rconfidence r = lit_0_9" "m0 m = ''tomorrow''"
    using tomorrow_rel by (auto split: option.splits)
  have "min lit_0_9 lit_1_0 = lit_0_9" by (simp add: lit_values)
  then show ?thesis
    using r weights_ok
    by (simp add: parse_finish tomorrow_text inputWithoutTime_def resolve_def
        relativeStep_Some [OF rm] afterTime_def finish_def relDate_def applyTime_def dadd_zero)
qed

text \<open>
  A witness for C3: the input \<open>tomorrow\<close> is parsed with confidence 0.9, and a state
  with a date but no weight is not returned.
\<close>

theorem confidence_bounds_witness:
  "parseSmartDateString (clockAt 0) ''tomorrow'' =
     Some \<lparr>DateParseResult.date = Time 86400000,
           DateParseResult.confidence = lit_0_9,
           originalInput = ''tomorrow'',
           parsedComponents = noComponents\<lparr>relative := Some ''tomorrow''\<rparr>\<rparr>
   \<and> lit_0_3 \<le> lit_0_9 \<and> lit_0_9 \<le> lit_1_0
   \<and> conf (zeroState\<lparr>parsed := Some (Time 0)\<rparr>) < lit_0_3
   \<and> finish ''tomorrow'' None (zeroState\<lparr>parsed := Some (Time 0)\<rparr>) = None"
proof -
  let ?r = "\<lparr>DateParseResult.date = Time 86400000,
           DateParseResult.confidence = lit_0_9,
           originalInput = ''tomorrow'',
           parsedComponents = noComponents\<lparr>relative := Some ''tomorrow''\<rparr>\<rparr>"
  have e: "parseSmartDateString (clockAt 0) ''tomorrow'' = Some ?r"
    by (simp add: parse_tomorrow clockAt_def addDays_def timeClip_def msPerDay_def maxTime_def)
  have c: "conf (zeroState\<lparr>parsed := Some (Time 0)\<rparr>) < lit_0_3"
    by (simp add: zeroState_def lit_values)
  note b = confidence_bounds [where p = "clockAt 0" and input = "''tomorrow''" and r = ?r
        and st = "zeroState\<lparr>parsed := Some (Time 0)\<rparr>" and extractedTime = None]
  from b e have "lit_0_3 \<le> DateParseResult.confidence ?r \<and> DateParseResult.confidence ?r \<le> lit_1_0"
    by blast
  moreover from b c have "finish ''tomorrow'' None (zeroState\<lparr>parsed := Some (Time 0)\<rparr>) = None"
    by blast
  ultimately show ?thesis using e c by simp
qed

subsection \<open>Hours and minutes of a date\<close>

lemma getHours_setHours:
  assumes "setHours d h \<noteq> Invalid" and "0 \<le> h" and "h < 24"
  shows "getHours (setHours d h) = Some h"
proof (cases d)
  case Invalid
  with assms show ?thesis by (simp add: setHours_def)
next
  case (Time t)
  let ?x = "t mod 3600000"
  have x: "0 \<le> ?x" "?x < 3600000" by simp_all
  have r: "0 \<le> h * 3600000 + ?x" "h * 3600000 + ?x < 86400000"
    using assms(2,3) x by simp_all
  have "(t div 86400000 * 86400000 + (h * 3600000 + ?x)) mod 86400000 = (h * 3600000 + ?x) mod 86400000"
    by (rule mod_mult_self3)
  then have "(t div 86400000 * 86400000 + h * 3600000 + ?x) mod 86400000 = h * 3600000 + ?x"
    using r by (simp add: add.assoc mod_pos_pos_trivial)
  moreover have "(h * 3600000 + ?x) div 3600000 = h"
    using x by simp
  ultimately show ?thesis using assms(1) Time
    by (simp add: setHours_def getHours_def timeClip_def msPerDay_def msPerHour_def split: if_splits)
qed

lemma weekday_range: "0 \<le> getDay t \<and> getDay t \<le> 6"
  by (simp add: getDay_def)

lemma setHours_valid:
  assumes "\<bar>t\<bar> \<le> maxTime - msPerDay" and "0 \<le> h" and "h < 24"
  shows "setHours (Time t) h \<noteq> Invalid"
proof -
  let ?q = "t div 86400000 * 86400000"
  have "?q \<le> t" "t - 86400000 < ?q" by (simp_all add: algebra_simps)
  moreover have "0 \<le> t mod 3600000" "t mod 3600000 < 3600000" by simp_all
  ultimately show ?thesis using assms
    by (simp add: setHours_def timeClip_def msPerDay_def msPerHour_def maxTime_def)
qed

lemma setMinutes_valid:
  assumes "\<bar>t\<bar> \<le> maxTime - msPerDay" and "0 \<le> m" and "m < 60"
  shows "\<exists>t'. setMinutes (Time t) m = Time t' \<and> \<bar>t'\<bar> \<le> \<bar>t\<bar> + msPerHour"
proof -
  define q where "q = t div 3600000 * 3600000"
  define x where "x = t mod 60000"
  have b: "q \<le> t" "t - 3600000 < q" "0 \<le> x" "x < 60000"
    by (simp_all add: q_def x_def algebra_simps)
  have "\<bar>q + m * 60000 + x\<bar> \<le> \<bar>t\<bar> + 3600000"
    using b assms(2,3) by linarith
  moreover have "\<bar>t\<bar> + 3600000 \<le> 8640000000000000"
    using assms(1) by (simp add: maxTime_def msPerDay_def)
  ultimately show ?thesis
    by (simp add: setMinutes_def timeClip_def msPerHour_def msPerMinute_def maxTime_def
        q_def [symmetric] x_def [symmetric])
qed


subsection \<open>The input next friday 2pm\<close>

lemma nf_text:
  "trim ''next friday 2pm'' \<noteq> []"
  "toLowerCase (trim ''next friday 2pm'') = ''next friday 2pm''"
  "timeLoop timePatterns ''next friday 2pm'' =
     (Some \<lparr>m0 = ''2pm'', groups = [Some ''2'', None, Some ''pm''], index = 12\<rparr>, Some (14, 0))"
  "inputWithoutTime ''next friday 2pm'' (Some \<lparr>m0 = ''2pm'', groups = [Some ''2'', None, Some ''pm''], index = 12\<rparr>) = ''next friday''"
  "firstRelative relativePatterns ''next friday'' = None"
  "rmatch weekdayPattern ''next friday'' = Some \<lparr>m0 = ''next friday'', groups = [Some ''next '', Some ''friday''], index = 0\<rparr>"
  "truthy (grp \<lparr>m0 = ''next friday'', groups = [Some ''next '', Some ''friday''], index = 0\<rparr> (Suc 0))"
  "indexOf weekdays (toLowerCase (case grp \<lparr>m0 = ''next friday'', groups = [Some ''next '', Some ''friday''], index = 0\<rparr> 2 of Some g \<Rightarrow> g | None \<Rightarrow> [])) = 4"
  by code_simp+

lemma parse_next_friday_2pm:
  "parseSmartDateString p ''next friday 2pm'' =
     Some \<lparr>DateParseResult.date =
             setHours (setMinutes (addDays (Time (now p))
               (Some (12 - (if getDay (now p) = 0 then 7 else getDay (now p))))) 0) 14,
           DateParseResult.confidence = min (dadd lit_0_3 lit_0_85) lit_1_0,
           originalInput = ''next friday 2pm'',
           parsedComponents = noComponents\<lparr>time := Some ''2pm'', weekday := Some ''next friday''\<rparr>\<rparr>"
  using weights_ok
  by (simp add: parse_finish nf_text resolve_def relativeStep_None weekdayStep_def
      afterTime_def finish_def applyTime_def Let_def dadd_zero)

text \<open>
  C7. The input \<open>next friday 2pm\<close> is parsed with the components weekday and time set
  and with confidence min(0.3 + 0.85, 1.0), which is 1.0. The resolved date has hour 14
  whenever it is a valid date, and it is one whenever the clock is at least 13 days
  inside the range of Date.
\<close>

theorem next_friday_2pm:
  "\<exists>r. parseSmartDateString p ''next friday 2pm'' = Some r
     \<and> weekday (parsedComponents r) = Some ''next friday''
     \<and> time (parsedComponents r) = Some ''2pm''
     \<and> DateParseResult.confidence r = min (dadd lit_0_3 lit_0_85) lit_1_0
     \<and> DateParseResult.confidence r = 1
     \<and> (DateParseResult.date r \<noteq> Invalid \<longrightarrow> getHours (DateParseResult.date r) = Some 14)
     \<and> (\<bar>now p\<bar> \<le> maxTime - 13 * msPerDay \<longrightarrow> DateParseResult.date r \<noteq> Invalid)"
proof -
  let ?k = "12 - (if getDay (now p) = 0 then 7 else getDay (now p))"
  let ?d = "setHours (setMinutes (addDays (Time (now p)) (Some ?k)) 0) 14"
  have c: "min (dadd lit_0_3 lit_0_85) lit_1_0 = 1"
    by (simp only: dadd_time) (simp add: lit_values)
  have h: "?d \<noteq> Invalid \<longrightarrow> getHours ?d = Some 14"
    by (simp add: getHours_setHours)
  have v: "?d \<noteq> Invalid" if a: "\<bar>now p\<bar> \<le> maxTime - 13 * msPerDay"
  proof -
    have k: "5 \<le> ?k" "?k \<le> 11" using weekday_range [of "now p"] by auto
    then have "?k \<noteq> 0" by linarith
    moreover have "\<bar>now p + ?k * msPerDay\<bar> \<le> maxTime - 2 * msPerDay"
      using a k by (auto simp: msPerDay_def maxTime_def)
    ultimately have 1: "addDays (Time (now p)) (Some ?k) = Time (now p + ?k * msPerDay)"
      by (simp add: addDays_def timeClip_def msPerDay_def maxTime_def)
    from setMinutes_valid [of "now p + ?k * msPerDay" 0] \<open>\<bar>now p + ?k * msPerDay\<bar> \<le> maxTime - 2 * msPerDay\<close>
    obtain t' where 2: "setMinutes (Time (now p + ?k * msPerDay)) 0 = Time t'"
      and 3: "\<bar>t'\<bar> \<le> \<bar>now p + ?k * msPerDay\<bar> + msPerHour"
      by (auto simp: msPerDay_def)
    have "\<bar>t'\<bar> \<le> maxTime - msPerDay"
      using 3 \<open>\<bar>now p + ?k * msPerDay\<bar> \<le> maxTime - 2 * msPerDay\<close>
      by (simp add: msPerDay_def msPerHour_def)
    from setHours_valid [OF this, of 14] show ?thesis by (simp add: 1 2)
  qed
  show ?thesis
    using c h v by (simp add: parse_next_friday_2pm)
qed

theorem next_friday_2pm_witness:
  "\<bar>now (clockAt 1793682000000)\<bar> \<le> maxTime - 13 * msPerDay
   \<and> (\<exists>r. parseSmartDateString (clockAt 1793682000000) ''next friday 2pm'' = Some r
         \<and> DateParseResult.date r \<noteq> Invalid
         \<and> getHours (DateParseResult.date r) = Some 14
         \<and> DateParseResult.confidence r = 1)"
proof -
  have "\<bar>now (clockAt 1793682000000)\<bar> \<le> maxTime - 13 * msPerDay"
    by (simp add: clockAt_def maxTime_def msPerDay_def)
  then show ?thesis
    using next_friday_2pm [of "clockAt 1793682000000"] by auto
qed

subsection \<open>The input 15 oct\<close>

lemma oct_text:
  "trim ''15 oct'' \<noteq> []"
  "toLowerCase (trim ''15 oct'') = ''15 oct''"
  "timeLoop timePatterns ''15 oct'' = (None, None)"
  "firstRelative relativePatterns ''15 oct'' = None"
  "rmatch weekdayPattern ''15 oct'' = None"
  "rmatch (monthPatterns ! 0) ''15 oct'' = None"
  "rmatch (monthPatterns ! Suc 0) ''15 oct'' = Some \<lparr>m0 = ''15 oct'', groups = [Some ''15'', Some ''oct''], index = 0\<rparr>"
  "includesStr (src (monthPatterns ! Suc 0)) ''jan|january''"
  "monthAndDay (monthPatterns ! Suc 0) \<lparr>m0 = ''15 oct'', groups = [Some ''15'', Some ''oct''], index = 0\<rparr> = (Some (- 1), None)"
  by code_simp+

lemma monthPatterns_list:
  "monthPatterns = [monthPatterns ! 0, monthPatterns ! Suc 0, monthPatterns ! 2]"
  by (simp add: monthPatterns_def)

lemma monthLoop_oct: "monthLoop nw monthPatterns ''15 oct'' st = st"
  by (subst monthPatterns_list) (simp add: oct_text monthBody_def)

text \<open>
  C1, which the code does not meet. The text of the day-first pattern contains
  \<open>jan|january\<close> as the text of the month-first pattern does, so a match of the
  day-first pattern is read by the month-first branch: the digits are looked up as a month
  name and the month name is read as a day. On the input \<open>15 oct\<close> the loop over the month
  patterns leaves the state as it was, and the parse has only what the fallback gives:
  no result, or a result with confidence 0.5 and no date component.
\<close>

theorem day_first_never_accepted:
  "includesStr (src (monthPatterns ! Suc 0)) ''jan|january''
   \<and> monthLoop nw monthPatterns ''15 oct'' st = st
   \<and> parseSmartDateString p ''15 oct'' =
       (if isValid (newDateOfString p ''15 oct'')
        then Some \<lparr>DateParseResult.date = newDateOfString p ''15 oct'',
                   DateParseResult.confidence = lit_0_5,
                   originalInput = ''15 oct'',
                   parsedComponents = noComponents\<rparr>
        else None)"
proof -
  have "min lit_0_5 lit_1_0 = lit_0_5" by (simp add: lit_values)
  then show ?thesis
    using weights_ok
    by (simp add: parse_finish oct_text inputWithoutTime_def resolve_def relativeStep_None
        weekdayStep_def monthLoop_oct fallbackStep_def afterTime_def finish_def applyTime_def
        Let_def dadd_zero)
qed

subsection \<open>A time that is out of range\<close>

lemma reject_text:
  "trim ''tomorrow 25:00'' \<noteq> []"
  "toLowerCase (trim ''tomorrow 25:00'') = ''tomorrow 25:00''"
  "timeLoop timePatterns ''tomorrow 25:00'' =
     (Some \<lparr>m0 = ''25:00'', groups = [Some ''25'', Some ''00''], index = 9\<rparr>, None)"
  "trim (replace ''tomorrow 25:00'' ''25:00'' []) = ''tomorrow''"
  by code_simp+

lemma time_kept_relativeStep: "time (comps (relativeStep nw s st)) = time (comps st)"
  by (simp add: relativeStep_def split: option.splits prod.splits)

lemma time_kept_weekdayStep: "time (comps (weekdayStep nw s st)) = time (comps st)"
  by (simp add: weekdayStep_def Let_def split: option.splits)

lemma time_kept_monthBody: "time (comps (monthBody nw pat m st)) = time (comps st)"
  by (simp add: monthBody_def Let_def split: option.splits prod.splits)

lemma time_kept_monthLoop: "time (comps (monthLoop nw pats s st)) = time (comps st)"
  by (induction pats) (simp_all add: time_kept_monthBody split: option.splits)

lemma time_kept_fallbackStep: "time (comps (fallbackStep p input st)) = time (comps st)"
  by (simp add: fallbackStep_def Let_def)

lemma time_kept_resolve: "time (comps (resolve p input s st)) = time (comps st)"
  by (simp add: resolve_def Let_def time_kept_relativeStep time_kept_weekdayStep
      time_kept_monthLoop time_kept_fallbackStep)

text \<open>
  C2, as amended. When a time pattern matches and the hour or the minute is out of range,
  the parse is the one that starts from confidence 0 with no time component and applies no
  time to the date, on the text from which the first occurrence of the matched substring
  is removed and which is trimmed again; a result, if there is one, has no time component.
\<close>

theorem rejected_time_is_removed:
  assumes "trim input \<noteq> []"
    and "timeLoop timePatterns (toLowerCase (trim input)) = (Some m, None)"
  shows "parseSmartDateString p input =
           finish input None
             (resolve p input (trim (replace (toLowerCase (trim input)) (m0 m) [])) zeroState)
         \<and> (\<forall>r. parseSmartDateString p input = Some r \<longrightarrow> time (parsedComponents r) = None)"
proof -
  have 1: "parseSmartDateString p input =
           finish input None
             (resolve p input (trim (replace (toLowerCase (trim input)) (m0 m) [])) zeroState)"
    by (simp add: parse_finish [OF assms(1)] assms(2) inputWithoutTime_def afterTime_def zeroState_def)
  have "time (comps (resolve p input (trim (replace (toLowerCase (trim input)) (m0 m) [])) zeroState)) = None"
    by (simp add: time_kept_resolve zeroState_def noComponents_def)
  then show ?thesis
    using 1 by (auto simp: finish_def split: option.splits if_splits)
qed

lemma resolve_tomorrow:
  "resolve p input ''tomorrow'' st =
     st\<lparr>parsed := Some (addDays (Time (now p)) (Some 1)),
        comps := (comps st)\<lparr>relative := Some ''tomorrow''\<rparr>,
        conf := dadd (conf st) lit_0_9\<rparr>"
proof -
  obtain r m where rm: "firstRelative relativePatterns ''tomorrow'' = Some (r, m)"
    and r: "days r = Some 1" "handler r = None" "rconfidence r = lit_0_9" "m0 m = ''tomorrow''"
    using tomorrow_rel by (auto split: option.splits)
  show ?thesis
    using r by (simp add: resolve_def relativeStep_Some [OF rm] relDate_def)
qed

lemma reject_parse:
  "parseSmartDateString p ''tomorrow 25:00'' =
     finish ''tomorrow 25:00'' None (resolve p ''tomorrow 25:00'' ''tomorrow'' zeroState)"
proof -
  have "timeLoop timePatterns (toLowerCase (trim ''tomorrow 25:00'')) =
     (Some \<lparr>m0 = ''25:00'', groups = [Some ''25'', Some ''00''], index = 9\<rparr>, None)"
    by (simp only: reject_text)
  from rejected_time_is_removed [OF reject_text(1) this, of p]
  have "parseSmartDateString p ''tomorrow 25:00'' =
     finish ''tomorrow 25:00'' None
       (resolve p ''tomorrow 25:00''
          (trim (replace (toLowerCase (trim ''tomorrow 25:00''))
             (m0 \<lparr>m0 = ''25:00'', groups = [Some ''25'', Some ''00''], index = 9\<rparr>) [])) zeroState)"
    by blast
  then show ?thesis by (simp only: reject_text rmatch.select_convs)
qed

theorem rejected_time_is_removed_witness:
  "trim ''tomorrow 25:00'' \<noteq> []
   \<and> timeLoop timePatterns (toLowerCase (trim ''tomorrow 25:00'')) =
       (Some \<lparr>m0 = ''25:00'', groups = [Some ''25'', Some ''00''], index = 9\<rparr>, None)
   \<and> parseSmartDateString (clockAt 0) ''tomorrow 25:00'' =
       finish ''tomorrow 25:00'' None (resolve (clockAt 0) ''tomorrow 25:00'' ''tomorrow'' zeroState)"
proof -
  have h: "timeLoop timePatterns (toLowerCase (trim ''tomorrow 25:00'')) =
     (Some \<lparr>m0 = ''25:00'', groups = [Some ''25'', Some ''00''], index = 9\<rparr>, None)"
    by (simp only: reject_text)
  from rejected_time_is_removed [OF reject_text(1) h, of "clockAt 0"]
  have "parseSmartDateString (clockAt 0) ''tomorrow 25:00'' =
     finish ''tomorrow 25:00'' None
       (resolve (clockAt 0) ''tomorrow 25:00''
          (trim (replace (toLowerCase (trim ''tomorrow 25:00''))
             (m0 \<lparr>m0 = ''25:00'', groups = [Some ''25'', Some ''00''], index = 9\<rparr>) [])) zeroState)"
    by blast
  then have "parseSmartDateString (clockAt 0) ''tomorrow 25:00'' =
       finish ''tomorrow 25:00'' None (resolve (clockAt 0) ''tomorrow 25:00'' ''tomorrow'' zeroState)"
    by (simp only: reject_text rmatch.select_convs)
  with reject_text(1) h show ?thesis by blast
qed

text \<open>
  C2 as stated fails: on \<open>tomorrow 25:00\<close> the time is rejected, and the text handed to
  the date resolvers is \<open>tomorrow\<close>, not the original text; the relative resolver
  then matches it.
\<close>

theorem rejected_time_removed_from_text:
  "snd (timeLoop timePatterns (toLowerCase (trim ''tomorrow 25:00''))) = None
   \<and> inputWithoutTime (toLowerCase (trim ''tomorrow 25:00''))
        (fst (timeLoop timePatterns (toLowerCase (trim ''tomorrow 25:00'')))) = ''tomorrow''
   \<and> toLowerCase (trim ''tomorrow 25:00'') \<noteq> ''tomorrow''
   \<and> map_option (\<lambda>r. relative (parsedComponents r))
        (parseSmartDateString (clockAt 0) ''tomorrow 25:00'') = Some (Some ''tomorrow'')"
proof -
  have 1: "snd (timeLoop timePatterns (toLowerCase (trim ''tomorrow 25:00''))) = None"
    by (simp only: reject_text snd_conv)
  have 2: "inputWithoutTime (toLowerCase (trim ''tomorrow 25:00''))
        (fst (timeLoop timePatterns (toLowerCase (trim ''tomorrow 25:00'')))) = ''tomorrow''"
    by (simp only: reject_text fst_conv inputWithoutTime_def option.case rmatch.select_convs)
  have 3: "toLowerCase (trim ''tomorrow 25:00'') \<noteq> ''tomorrow''"
    by (simp only: reject_text) simp
  have 4: "map_option (\<lambda>r. relative (parsedComponents r))
        (parseSmartDateString (clockAt 0) ''tomorrow 25:00'') = Some (Some ''tomorrow'')"
    using weights_ok
    by (simp add: reject_parse resolve_tomorrow finish_def zeroState_def noComponents_def dadd_zero)
  from 1 2 3 4 show ?thesis by blast
qed

section \<open>Removing duplicates, sorting and the cap\<close>

lemma findIndex_ge: "- 1 \<le> findIndex P xs"
  by (induction xs) (auto simp: Let_def)

lemma findIndex_nth:
  "findIndex P xs = int i \<Longrightarrow> i < length xs \<and> P (xs ! i) \<and> (\<forall>j<i. \<not> P (xs ! j))"
proof (induction xs arbitrary: i)
  case Nil
  then show ?case by simp
next
  case (Cons x xs)
  show ?case
  proof (cases "P x")
    case True
    with Cons.prems show ?thesis by simp
  next
    case False
    with Cons.prems have k: "0 \<le> findIndex P xs" "int i = findIndex P xs + 1"
      by (auto simp: Let_def split: if_splits)
    then have i: "0 < i" by linarith
    with k have "findIndex P xs = int (i - 1)" by simp
    from Cons.IH [OF this] False i show ?thesis
      by (auto simp: nth_Cons')
  qed
qed


lemma firstByValue_subset: "set (firstByValue xs) \<subseteq> set xs"
  by (auto simp: firstByValue_def)



lemma filteredSuggestions_subset: "set (filteredSuggestions xs) \<subseteq> set (firstByValue xs)"
  by (auto simp: filteredSuggestions_def byConfidence_def)



lemma smartFilter_cases:
  "\<exists>n P. smartFilter ys = take n (filter P ys)"
proof (cases ys)
  case Nil
  then show ?thesis by (simp add: smartFilter_def)
next
  case (Cons y zs)
  have t: "take 6 ys = take 6 (filter (\<lambda>s. True) ys)" by simp
  consider "lit_0_9 \<le> confidence y"
    | "\<not> lit_0_9 \<le> confidence y" "lit_0_7 \<le> confidence y"
    | "\<not> lit_0_9 \<le> confidence y" "\<not> lit_0_7 \<le> confidence y"
    by blast
  then show ?thesis
  proof cases
    case 1
    then have "smartFilter ys = take 3 (filter (\<lambda>s. lit_0_85 \<le> confidence s) ys)"
      using Cons by (simp add: smartFilter_def)
    then show ?thesis by blast
  next
    case 2
    then have "smartFilter ys = take 5 (filter (\<lambda>s. lit_0_6 \<le> confidence s) ys)"
      using Cons by (simp add: smartFilter_def)
    then show ?thesis by blast
  next
    case 3
    then have "smartFilter ys = take 6 ys"
      using Cons by (simp add: smartFilter_def)
    with t show ?thesis by metis
  qed
qed

lemma smartFilter_subset: "set (smartFilter ys) \<subseteq> set ys"
proof -
  obtain n P where "smartFilter ys = take n (filter P ys)" using smartFilter_cases by blast
  then show ?thesis by (auto dest: in_set_takeD)
qed



section \<open>When a parse succeeds\<close>

lemma parsed_afterTime: "parsed (afterTime tm) = None"
  by (auto simp: afterTime_def split: option.splits prod.splits)

lemma relativeStep_cases:
  "relativeStep nw s st = st
   \<or> (parsed (relativeStep nw s st) \<noteq> None
       \<and> (\<exists>w\<in>weights. conf (relativeStep nw s st) = dadd (conf st) w))"
proof (cases "firstRelative relativePatterns s")
  case None
  then show ?thesis by (simp add: relativeStep_None)
next
  case (Some rm)
  obtain r m where rm: "rm = (r, m)" by (cases rm)
  from Some rm have f: "firstRelative relativePatterns s = Some (r, m)" by simp
  then have "r \<in> set relativePatterns" by (simp add: firstRelative_Some)
  from relativePatterns_weight [OF this] have "rconfidence r \<in> weights"
    by (auto simp: weights_def)
  then show ?thesis by (auto simp: relativeStep_Some [OF f])
qed

lemma weekdayStep_cases:
  "weekdayStep nw s st = st
   \<or> (parsed (weekdayStep nw s st) \<noteq> None
       \<and> (\<exists>w\<in>weights. conf (weekdayStep nw s st) = dadd (conf st) w))"
  by (auto simp: weekdayStep_def Let_def weights_def split: option.splits)

lemma monthBody_cases:
  "monthBody nw pat m st = st
   \<or> (parsed (monthBody nw pat m st) \<noteq> None
       \<and> (\<exists>w\<in>weights. conf (monthBody nw pat m st) = dadd (conf st) w))"
  by (auto simp: monthBody_def Let_def weights_def split: option.splits prod.splits)

lemma monthLoop_cases:
  "monthLoop nw pats s st = st
   \<or> (parsed (monthLoop nw pats s st) \<noteq> None
       \<and> (\<exists>w\<in>weights. conf (monthLoop nw pats s st) = dadd (conf st) w))"
proof (induction pats)
  case Nil
  then show ?case by simp
next
  case (Cons pat pats)
  then show ?case using monthBody_cases [of nw pat _ st]
    by (auto split: option.splits)
qed

lemma fallbackStep_cases:
  "fallbackStep p input st = st
   \<or> (parsed (fallbackStep p input st) \<noteq> None
       \<and> (\<exists>w\<in>weights. conf (fallbackStep p input st) = dadd (conf st) w))"
  by (auto simp: fallbackStep_def Let_def weights_def)

lemma resolve_cases:
  assumes "parsed st = None" and "parsed (resolve p input s st) \<noteq> None"
  shows "\<exists>w\<in>weights. conf (resolve p input s st) = dadd (conf st) w"
proof -
  consider (rel) "parsed (relativeStep (now p) s st) \<noteq> None"
    | (wd) "relativeStep (now p) s st = st" "parsed (weekdayStep (now p) s st) \<noteq> None"
    | (mo) "relativeStep (now p) s st = st" "weekdayStep (now p) s st = st"
        "parsed (monthLoop (now p) monthPatterns s st) \<noteq> None"
    | (fb) "relativeStep (now p) s st = st" "weekdayStep (now p) s st = st"
        "monthLoop (now p) monthPatterns s st = st"
    using relativeStep_cases [of "now p" s st] weekdayStep_cases [of "now p" s st]
      monthLoop_cases [of "now p" monthPatterns s st] assms(1)
    by metis
  then show ?thesis
  proof cases
    case rel
    then show ?thesis using relativeStep_cases [of "now p" s st] assms(1)
      by (auto simp: resolve_def)
  next
    case wd
    then show ?thesis using weekdayStep_cases [of "now p" s st] assms(1)
      by (auto simp: resolve_def)
  next
    case mo
    then show ?thesis using monthLoop_cases [of "now p" monthPatterns s st] assms(1)
      by (auto simp: resolve_def)
  next
    case fb
    then show ?thesis using fallbackStep_cases [of p input st] assms
      by (auto simp: resolve_def)
  qed
qed

lemma resolve_weight_ok:
  assumes "parsed (resolve p input s (afterTime tm)) \<noteq> None"
  shows "\<not> conf (resolve p input s (afterTime tm)) < lit_0_3"
proof -
  from resolve_cases [OF parsed_afterTime assms]
  obtain w where w: "w \<in> weights" "conf (resolve p input s (afterTime tm)) = dadd (conf (afterTime tm)) w"
    by blast
  then show ?thesis using conf_afterTime [of tm] weights_ok
    by (auto simp: weights_def)
qed

lemma parse_succeeds_iff:
  "parseSmartDateString p input \<noteq> None \<longleftrightarrow>
     trim input \<noteq> []
     \<and> parsed (resolve p input
          (inputWithoutTime (toLowerCase (trim input))
             (fst (timeLoop timePatterns (toLowerCase (trim input)))))
          (afterTime (timeLoop timePatterns (toLowerCase (trim input))))) \<noteq> None"
proof (cases "trim input = []")
  case True
  then show ?thesis by (simp add: parseSmartDateString_def)
next
  case False
  then show ?thesis
    using resolve_weight_ok [of p input _ "timeLoop timePatterns (toLowerCase (trim input))"]
    by (auto simp: parse_finish finish_def split: option.splits)
qed

lemma resolve_relative:
  assumes "firstRelative relativePatterns s \<noteq> None"
  shows "parsed (resolve p input s st) \<noteq> None"
proof -
  from assms obtain r m where f: "firstRelative relativePatterns s = Some (r, m)" by auto
  show ?thesis by (simp add: resolve_def relativeStep_Some [OF f])
qed

lemma resolve_weekday:
  assumes "parsed st = None" "firstRelative relativePatterns s = None"
    and "rmatch weekdayPattern s = Some m"
    and "indexOf weekdays (toLowerCase (case grp m 2 of Some g \<Rightarrow> g | None \<Rightarrow> [])) \<noteq> - 1"
  shows "parsed (resolve p input s st) \<noteq> None"
  using assms by (simp add: resolve_def relativeStep_None weekdayStep_def Let_def)

section \<open>Suggestions\<close>

lemma base_texts:
  "trim ''next week'' \<noteq> []"
  "firstRelative relativePatterns
     (inputWithoutTime (toLowerCase (trim ''next week''))
        (fst (timeLoop timePatterns (toLowerCase (trim ''next week''))))) \<noteq> None"
  "trim ''tomorrow 10am'' \<noteq> []"
  "firstRelative relativePatterns
     (inputWithoutTime (toLowerCase (trim ''tomorrow 10am''))
        (fst (timeLoop timePatterns (toLowerCase (trim ''tomorrow 10am''))))) \<noteq> None"
  by code_simp+

lemma next_monday_text:
  "trim ''next monday'' \<noteq> []"
  "inputWithoutTime (toLowerCase (trim ''next monday''))
        (fst (timeLoop timePatterns (toLowerCase (trim ''next monday'')))) = ''next monday''"
  "firstRelative relativePatterns ''next monday'' = None"
  "rmatch weekdayPattern ''next monday'' =
     Some \<lparr>m0 = ''next monday'', groups = [Some ''next '', Some ''monday''], index = 0\<rparr>"
  "indexOf weekdays (toLowerCase (case grp \<lparr>m0 = ''next monday'', groups = [Some ''next '', Some ''monday''], index = 0\<rparr> 2 of Some g \<Rightarrow> g | None \<Rightarrow> [])) \<noteq> - 1"
  by code_simp+

lemma base_parse:
  "parseSmartDateString p ''tomorrow'' \<noteq> None"
  "parseSmartDateString p ''next week'' \<noteq> None"
  "parseSmartDateString p ''next monday'' \<noteq> None"
  "parseSmartDateString p ''tomorrow 10am'' \<noteq> None"
proof -
  show "parseSmartDateString p ''tomorrow'' \<noteq> None" by (simp add: parse_tomorrow)
  show "parseSmartDateString p ''next week'' \<noteq> None"
    by (simp only: parse_succeeds_iff base_texts resolve_relative simp_thms)
  show "parseSmartDateString p ''tomorrow 10am'' \<noteq> None"
    by (simp only: parse_succeeds_iff base_texts resolve_relative simp_thms)
  have "parsed (resolve p ''next monday'' ''next monday''
          (afterTime (timeLoop timePatterns (toLowerCase (trim ''next monday''))))) \<noteq> None"
    by (rule resolve_weekday [OF parsed_afterTime next_monday_text(3) next_monday_text(4) next_monday_text(5)])
  then show "parseSmartDateString p ''next monday'' \<noteq> None"
    by (simp only: parse_succeeds_iff next_monday_text simp_thms)
qed

lemma initial_values:
  "map value (initialSuggestions p showTime) =
     (if showTime then [''tomorrow'', ''next week'', ''next monday'', ''tomorrow 10am'']
      else [''tomorrow'', ''next week'', ''next monday''])"
  by (simp add: initialSuggestions_def baseSuggestions_def)


lemma initial_parseable:
  assumes "s \<in> set (initialSuggestions p showTime)"
  shows "parseSmartDateString p (value s) \<noteq> None"
proof -
  from assms have "value s \<in> set (map value (initialSuggestions p showTime))" by simp
  then have "value s \<in> {''tomorrow'', ''next week'', ''next monday'', ''tomorrow 10am''}"
    by (simp only: initial_values split: if_splits) auto
  then show ?thesis using base_parse [of p] by auto
qed

lemma candidate_parseable:
  "s \<in> set (candidate p v c cat) \<Longrightarrow> parseSmartDateString p (value s) \<noteq> None"
  by (cases "parseSmartDateString p v") (auto simp: candidate_def)

lemma natural_parseable:
  "s \<in> set (naturalSuggestion input (parseSmartDateString p input))
     \<Longrightarrow> parseSmartDateString p (value s) \<noteq> None"
  by (cases "parseSmartDateString p input") (auto simp: naturalSuggestion_def split: if_splits)

lemma time_parseable:
  "s \<in> set (timeSuggestions p trimmed showTime) \<Longrightarrow> parseSmartDateString p (value s) \<noteq> None"
  by (auto simp: timeSuggestions_def dest: candidate_parseable split: if_splits)

lemma month_parseable:
  "s \<in> set (monthSuggestions p trimmed currentParse) \<Longrightarrow> parseSmartDateString p (value s) \<noteq> None"
  by (auto simp: monthSuggestions_def Let_def dest: candidate_parseable split: if_splits)

lemma variants_parseable:
  "s \<in> set (weekdayVariants p showTime wd prefix) \<Longrightarrow> parseSmartDateString p (value s) \<noteq> None"
  by (cases "parseSmartDateString p (prefix @ wd)")
     (auto simp: weekdayVariants_def Let_def dest: candidate_parseable split: if_splits)

lemma weekday_parseable:
  "s \<in> set (weekdaySuggestions p trimmed showTime) \<Longrightarrow> parseSmartDateString p (value s) \<noteq> None"
  by (auto simp: weekdaySuggestions_def Let_def dest: variants_parseable)

lemma contextual_parseable:
  "s \<in> set (contextualSuggestions p trimmed showTime currentParse)
     \<Longrightarrow> parseSmartDateString p (value s) \<noteq> None"
  by (auto simp: contextualSuggestions_def dest: time_parseable month_parseable weekday_parseable)

lemma relativeLoop_parseable:
  assumes "\<forall>s\<in>set acc. parseSmartDateString p (value s) \<noteq> None"
  shows "\<forall>s\<in>set (relativeLoop p showTime phrases acc). parseSmartDateString p (value s) \<noteq> None"
  using assms
proof (induction phrases arbitrary: acc)
  case Nil
  then show ?case by simp
next
  case (Cons ph phrases)
  show ?case
    unfolding relativeLoop.simps
    by (rule Cons.IH) (use Cons.prems in \<open>auto split: option.splits\<close>)
qed

lemma relativeFamilies_parseable:
  assumes "\<forall>s\<in>set acc. parseSmartDateString p (value s) \<noteq> None"
  shows "\<forall>s\<in>set (relativeFamilies p showTime trimmed fams acc). parseSmartDateString p (value s) \<noteq> None"
  using assms
proof (induction fams)
  case Nil
  then show ?case by simp
next
  case (Cons fam fams)
  obtain pat phrases where fam: "fam = (pat, phrases)" by (cases fam)
  show ?case
    using Cons relativeLoop_parseable [OF Cons.prems, of showTime "take 2 phrases"]
    by (simp add: fam)
qed

lemma pool_parseable:
  "\<forall>s\<in>set (candidatePool p input showTime). parseSmartDateString p (value s) \<noteq> None"
proof -
  let ?cp = "parseSmartDateString p input"
  let ?acc = "naturalSuggestion input ?cp
     @ take 8 (contextualSuggestions p (toLowerCase (trim input)) showTime ?cp)"
  have acc: "\<forall>s\<in>set ?acc. parseSmartDateString p (value s) \<noteq> None"
    by (auto dest: natural_parseable contextual_parseable in_set_takeD)
  show ?thesis
    using acc relativeFamilies_parseable [OF acc]
    by (simp add: candidatePool_def Let_def)
qed

lemma generated_from_pool:
  assumes "toLowerCase (trim input) \<noteq> []"
  shows "set (generateSmartSuggestions p input showTime) \<subseteq> set (firstByValue (candidatePool p input showTime))"
  using assms smartFilter_subset filteredSuggestions_subset
  by (fastforce simp: generateSmartSuggestions_def)

text \<open>
  C4. Every suggestion that \<open>generateSmartSuggestions\<close> returns, for any text, flag and
  platform, has a value that \<open>parseSmartDateString\<close> parses on the same platform; this
  includes the suggestions of the branch for an empty input.
\<close>

theorem suggestions_parseable:
  "\<forall>s\<in>set (generateSmartSuggestions p input showTime). parseSmartDateString p (value s) \<noteq> None"
proof (cases "toLowerCase (trim input) = []")
  case True
  then show ?thesis by (auto simp: generateSmartSuggestions_def dest: initial_parseable)
next
  case False
  from generated_from_pool [OF this] firstByValue_subset pool_parseable
  show ?thesis by blast
qed


lemma boost_values:
  "min (dadd lit_0_9 lit_0_2) lit_1_0 = 1"
  unfolding dadd_def lit_values by code_simp

lemma tomorrow_weekdays:
  "filter (\<lambda>day. includesStr day ''tomorrow'' \<or> includesStr ''tomorrow'' (take 3 day)) weekdays = []"
  by code_simp

lemma pool_tomorrow:
  "candidatePool p ''tomorrow'' False =
     [\<lparr>value = ''tomorrow'', confidence = 1,
       parsedDate = Some (addDays (Time (now p)) (Some 1)), category = CNatural\<rparr>]"
proof -
  have 1: "lit_0_5 < lit_0_9" "\<not> lit_0_9 < lit_0_7" "\<not> lit_0_9 < lit_0_8"
    by (simp_all add: lit_values)
  have w: "weekdaySuggestions p ''tomorrow'' False = []"
    by (simp only: weekdaySuggestions_def Let_def tomorrow_weekdays) simp
  show ?thesis
    using 1
    by (simp add: candidatePool_def parse_tomorrow tomorrow_text naturalSuggestion_def
        contextualSuggestions_def timeSuggestions_def monthSuggestions_def belowConfidence_def
        w boost_values Let_def)
qed

lemma suggest_tomorrow:
  "generateSmartSuggestions p ''tomorrow'' False =
     [\<lparr>value = ''tomorrow'', confidence = 1,
       parsedDate = Some (addDays (Time (now p)) (Some 1)), category = CNatural\<rparr>]"
proof -
  have "lit_0_9 \<le> (1::rat)" "lit_0_85 \<le> (1::rat)" by (simp_all add: lit_values)
  then show ?thesis
    by (simp add: generateSmartSuggestions_def tomorrow_text pool_tomorrow filteredSuggestions_def
        firstByValue_def byConfidence_def smartFilter_def)
qed





text \<open>Witnesses for C4 and C5, on the text \<open>tomorrow\<close> and on the empty text.\<close>

theorem suggestions_parseable_witness:
  "\<lparr>value = ''tomorrow'', confidence = 1,
     parsedDate = Some (Time 86400000), category = CNatural\<rparr>
     \<in> set (generateSmartSuggestions (clockAt 0) ''tomorrow'' False)
   \<and> parseSmartDateString (clockAt 0) ''tomorrow'' \<noteq> None"
proof -
  let ?s = "\<lparr>value = ''tomorrow'', confidence = 1,
     parsedDate = Some (Time 86400000), category = CNatural\<rparr>"
  have m: "?s \<in> set (generateSmartSuggestions (clockAt 0) ''tomorrow'' False)"
    by (simp add: suggest_tomorrow clockAt_def addDays_def timeClip_def msPerDay_def maxTime_def)
  with suggestions_parseable [of "clockAt 0" "''tomorrow''" False]
  have "parseSmartDateString (clockAt 0) (value ?s) \<noteq> None" by blast
  with m show ?thesis by simp
qed


end
